theory Spec2Isabelle
  imports Complex_Main
begin

section \<open>Forms sent to a player and the decoding of their responses\<close>

text \<open>
  The package \<^verbatim>\<open>form\<close> defines three kinds of forms (\<^verbatim>\<open>Custom\<close>, \<^verbatim>\<open>Menu\<close>, \<^verbatim>\<open>Modal\<close>)
  together with the elements and buttons they hold. Every form has a \<^verbatim>\<open>MarshalJSON\<close>
  method and a \<^verbatim>\<open>SubmitJSON\<close> method; every element of a custom form has a
  \<^verbatim>\<open>MarshalJSON\<close> and a \<^verbatim>\<open>submit\<close> method.

  Conventions of the embedding.
  \<^item> A Go \<^verbatim>\<open>string\<close> and a \<^verbatim>\<open>[]byte\<close> are byte sequences: \<^typ>\<open>string\<close>.
  \<^item> A callback field (\<^verbatim>\<open>Submit func(...)\<close>) is \<^typ>\<open>nat option\<close>: \<open>None\<close> is the nil
    function, \<open>Some c\<close> the closure named \<open>c\<close>. Calling it is recorded as the event
    \<open>Call f c args\<close>, where \<open>f\<close> tells through which field it is called: the \<^verbatim>\<open>Submit\<close> of
    a form, of an element or of a button. The closures are opaque and are taken to return
    normally.
  \<^item> Every method returns the list of callback events it caused, in order, and an
    outcome: the returned \<^verbatim>\<open>error\<close> (\<open>None\<close> is nil), or a run-time panic.
  \<^item> \<^verbatim>\<open>int\<close> and \<^verbatim>\<open>uint\<close> are taken to be 64 bits wide, so \<^verbatim>\<open>int(val)\<close> of an
    \<^verbatim>\<open>int64\<close> is the identity. No arithmetic is done on them, only comparisons, so they
    are modelled by \<^typ>\<open>int\<close> and \<^typ>\<open>nat\<close> within the range the conversions guarantee.
  \<^item> A slice is a list; a nil slice and an empty slice are identified except where the
    code tells them apart (\<^verbatim>\<open>data == nil\<close>, \<^verbatim>\<open>form.Buttons == nil\<close>), where the slice is
    an \<open>option\<close>.
\<close>

subsection \<open>Values, errors and outcomes\<close>

text \<open>
  A float64 by its value. Comparison is all the code does with one, so the two zeros are
  identified and the payload of a NaN is left out. \<open>Finite\<close> admits every rational, a
  superset of the finite doubles.
\<close>

datatype float64 = NaN | PosInf | NegInf | Finite rat

text \<open>The IEEE 754 comparison \<^verbatim>\<open>a < b\<close>: false as soon as one side is a NaN.\<close>

fun f64_lt :: "float64 \<Rightarrow> float64 \<Rightarrow> bool" where
  "f64_lt NaN _ = False"
| "f64_lt _ NaN = False"
| "f64_lt (Finite x) (Finite y) = (x < y)"
| "f64_lt NegInf NegInf = False"
| "f64_lt NegInf _ = True"
| "f64_lt PosInf _ = False"
| "f64_lt (Finite x) PosInf = True"
| "f64_lt (Finite x) NegInf = False"

definition f64_finite :: "float64 \<Rightarrow> bool" where
  "f64_finite x = (case x of Finite _ \<Rightarrow> True | _ \<Rightarrow> False)"

text \<open>
  What the decoder stores in an \<^verbatim>\<open>any\<close> when \<^verbatim>\<open>UseNumber\<close> is set: nil, a bool, a
  \<^verbatim>\<open>json.Number\<close> (the literal's text), a string, a \<^verbatim>\<open>[]any\<close> or a
  \<^verbatim>\<open>map[string]any\<close>.
\<close>

datatype json =
    JNull
  | JBool bool
  | JNumber string
  | JString string
  | JArray "json list"
  | JObject "(string \<times> json) list"

datatype error =
    ErrSyntax
  | ErrRange
  | ErrUnmarshal
  | ErrUnsupportedValue
  | ErrMarshaler error
  | ErrDecodingSlice error
  | ErrNotEnoughValues
  | ErrParsingResponseValue error
  | ErrInputNotAllowed json
  | ErrInputNotUTF8 json
  | ErrToggleNotAllowed json
  | ErrSliderNotAllowed json
  | ErrSliderOutOfRange float64 float64 float64
  | ErrDropdownNotAllowed json
  | ErrDropdownOutOfRange int int
  | ErrStepSliderNotAllowed json
  | ErrParseButtonIndex error
  | ErrInvalidButton nat nat
  | ErrParsingBool error
  | ErrNoElements

datatype arg = AString string | ABool bool | AFloat float64 | AInt int | ATx nat

datatype field = FormSubmit | ElementSubmit | ButtonSubmit

datatype event = Call field nat "arg list"

datatype outcome = Returned "error option" | Panicked

type_synonym result = "event list \<times> outcome"

definition is_error :: "result \<Rightarrow> bool" where
  "is_error r = (case snd r of Returned (Some _) \<Rightarrow> True | _ \<Rightarrow> False)"

definition returns_nil :: "result \<Rightarrow> bool" where
  "returns_nil r = (snd r = Returned None)"

definition events :: "result \<Rightarrow> event list" where
  "events r = fst r"

text \<open>Indexing a slice: Go panics when the index is out of range.\<close>

definition index :: "'a list \<Rightarrow> int \<Rightarrow> 'a option" where
  "index xs i = (if 0 \<le> i \<and> i < int (length xs) then Some (xs ! nat i) else None)"

subsection \<open>The library conversions the elements call\<close>

definition is_digit :: "char \<Rightarrow> bool" where
  "is_digit c = (48 \<le> (of_char c :: nat) \<and> (of_char c :: nat) \<le> 57)"

definition digit_val :: "char \<Rightarrow> nat" where
  "digit_val c = of_char c - 48"

definition digits_value :: "string \<Rightarrow> nat" where
  "digits_value ds = foldl (\<lambda>n c. 10 * n + digit_val c) 0 ds"

definition all_digits :: "string \<Rightarrow> bool" where
  "all_digits ds = (ds \<noteq> [] \<and> list_all is_digit ds)"

text \<open>
  \<^verbatim>\<open>utf8.ValidString\<close>: the string is a sequence of well-formed UTF-8 encodings (no
  overlong form, no surrogate, nothing above U+10FFFF).
\<close>

definition in_range :: "char \<Rightarrow> nat \<Rightarrow> nat \<Rightarrow> bool" where
  "in_range c lo hi = (lo \<le> of_char c \<and> (of_char c :: nat) \<le> hi)"

fun ValidString :: "string \<Rightarrow> bool" where
  "ValidString [] = True"
| "ValidString (c # cs) =
     (if in_range c 0 127 then ValidString cs
      else if in_range c 194 223 then
        (case cs of c1 # r \<Rightarrow> in_range c1 128 191 \<and> ValidString r | _ \<Rightarrow> False)
      else if in_range c 224 239 then
        (case cs of c1 # c2 # r \<Rightarrow>
           in_range c1 (if in_range c 224 224 then 160 else 128)
                       (if in_range c 237 237 then 159 else 191)
           \<and> in_range c2 128 191 \<and> ValidString r
         | _ \<Rightarrow> False)
      else if in_range c 240 244 then
        (case cs of c1 # c2 # c3 # r \<Rightarrow>
           in_range c1 (if in_range c 240 240 then 144 else 128)
                       (if in_range c 244 244 then 143 else 191)
           \<and> in_range c2 128 191 \<and> in_range c3 128 191 \<and> ValidString r
         | _ \<Rightarrow> False)
      else False)"

text \<open>
  \<^verbatim>\<open>json.Number.Int64\<close> is \<^verbatim>\<open>strconv.ParseInt(s, 10, 64)\<close>: an optional sign, then
  decimal digits only. A value outside the int64 range is a range error, reported with
  the nearest bound; a malformed text is a syntax error, reported with 0.
\<close>

definition Int64 :: "string \<Rightarrow> int \<times> error option" where
  "Int64 s =
     (let neg = (s \<noteq> [] \<and> hd s = CHR ''-'');
          ds = (if s \<noteq> [] \<and> (hd s = CHR ''+'' \<or> hd s = CHR ''-'') then tl s else s)
      in if \<not> all_digits ds then (0, Some ErrSyntax)
         else let n = int (digits_value ds)
              in if \<not> neg \<and> 2 ^ 63 \<le> n then (2 ^ 63 - 1, Some ErrRange)
                 else if neg \<and> 2 ^ 63 < n then (- (2 ^ 63), Some ErrRange)
                 else (if neg then - n else n, None))"

text \<open>
  \<^verbatim>\<open>json.Number.Float64\<close> is \<^verbatim>\<open>strconv.ParseFloat(s, 64)\<close>. The model covers decimal
  literals (sign, digits with an optional point, optional exponent), which include every
  JSON number, the only texts the decoder stores in a \<^verbatim>\<open>json.Number\<close>; the other
  spellings Go accepts (infinities, NaN, hexadecimal, underscores) are left as syntax
  errors. The literal's exact value, the fraction \<open>num / den\<close>, is rounded to the nearest
  double, ties to even. A value at least half a unit in the last place above the largest
  double \<^verbatim>\<open>(2^53 - 1) * 2^971\<close> rounds out of the range: the result is an infinity
  together with a range error. A value too small for a double rounds to a subnormal
  number or to zero and is no error.
\<close>

definition pow2 :: "int \<Rightarrow> rat" where
  "pow2 k = (if 0 \<le> k then 2 ^ nat k else 1 / 2 ^ nat (- k))"

fun bit_length :: "nat \<Rightarrow> nat" where
  "bit_length n = (if n = 0 then 0 else Suc (bit_length (n div 2)))"

declare bit_length.simps [simp del]

text \<open>The exponent of the leading bit of \<open>num / den\<close>.\<close>

definition floor_log2 :: "nat \<Rightarrow> nat \<Rightarrow> int" where
  "floor_log2 num den =
     (let d = int (bit_length num) - int (bit_length den)
      in if (if 0 \<le> d then den * 2 ^ nat d \<le> num else den \<le> num * 2 ^ nat (- d))
         then d else d - 1)"

text \<open>The integer nearest to \<open>n / d\<close>, the even one of two that are equally near.\<close>

definition round_half_even :: "nat \<Rightarrow> nat \<Rightarrow> nat" where
  "round_half_even n d =
     (let q = n div d; r = n mod d
      in if 2 * r < d then q else if d < 2 * r then q + 1
         else if even q then q else q + 1)"

text \<open>
  Rounding to 53 significant bits, and to a multiple of \<^verbatim>\<open>2^-1074\<close> in the subnormal
  range.
\<close>

definition f64_round :: "bool \<Rightarrow> nat \<Rightarrow> nat \<Rightarrow> float64 \<times> error option" where
  "f64_round neg num den =
     (if num = 0 then (Finite 0, None)
      else if (2 ^ 54 - 1) * 2 ^ 970 * den \<le> num
      then (if neg then NegInf else PosInf, Some ErrRange)
      else let k = max (floor_log2 num den - 52) (- 1074);
               m = (if k < 0 then round_half_even (num * 2 ^ nat (- k)) den
                    else round_half_even num (den * 2 ^ nat k));
               v = of_nat m * pow2 k
           in (Finite (if neg then - v else v), None))"

text \<open>
  Reading a decimal literal: its sign, the number its digits spell without the point,
  and the power of ten to scale that number by.
\<close>

definition parse_decimal :: "string \<Rightarrow> (bool \<times> nat \<times> int) option" where
  "parse_decimal s =
     (let neg = (s \<noteq> [] \<and> hd s = CHR ''-'');
          r0 = (if s \<noteq> [] \<and> (hd s = CHR ''+'' \<or> hd s = CHR ''-'') then tl s else s);
          ip = takeWhile is_digit r0;
          r1 = dropWhile is_digit r0;
          point = (r1 \<noteq> [] \<and> hd r1 = CHR ''.'');
          fp = (if point then takeWhile is_digit (tl r1) else []);
          r2 = (if point then dropWhile is_digit (tl r1) else r1);
          ex = (r2 \<noteq> [] \<and> (hd r2 = CHR ''e'' \<or> hd r2 = CHR ''E''));
          r3 = (if ex then tl r2 else r2);
          eneg = (ex \<and> r3 \<noteq> [] \<and> hd r3 = CHR ''-'');
          ed = (if ex \<and> r3 \<noteq> [] \<and> (hd r3 = CHR ''+'' \<or> hd r3 = CHR ''-'') then tl r3 else r3)
      in if ip @ fp = [] \<or> (ex \<and> \<not> all_digits ed) \<or> (\<not> ex \<and> r2 \<noteq> [])
         then None
         else let e = (if ex then (if eneg then - int (digits_value ed) else int (digits_value ed))
                       else 0)
              in Some (neg, digits_value (ip @ fp), e - int (length fp)))"

definition Float64 :: "string \<Rightarrow> float64 \<times> error option" where
  "Float64 s =
     (case parse_decimal s of
        None \<Rightarrow> (Finite 0, Some ErrSyntax)
      | Some (neg, m, e) \<Rightarrow>
          if 0 \<le> e then f64_round neg (m * 10 ^ nat e) 1
          else f64_round neg m (10 ^ nat (- e)))"

text \<open>
  The literals the decoder accepts as numbers (RFC 8259): an optional minus, an integer
  part without leading zeros, an optional fraction, an optional exponent. Every
  \<^verbatim>\<open>json.Number\<close> that reaches an element comes from the decoder and has this form.
\<close>

definition json_int_part :: "string \<Rightarrow> bool" where
  "json_int_part ip = (all_digits ip \<and> (hd ip = CHR ''0'' \<longrightarrow> length ip = 1))"

definition json_exp_part :: "string \<Rightarrow> bool" where
  "json_exp_part r =
     (r = [] \<or>
      ((hd r = CHR ''e'' \<or> hd r = CHR ''E'') \<and>
       all_digits (if tl r \<noteq> [] \<and> (hd (tl r) = CHR ''+'' \<or> hd (tl r) = CHR ''-'')
                   then tl (tl r) else tl r)))"

definition json_number_literal :: "string \<Rightarrow> bool" where
  "json_number_literal s =
     (let r0 = (if s \<noteq> [] \<and> hd s = CHR ''-'' then tl s else s);
          ip = takeWhile is_digit r0;
          r1 = dropWhile is_digit r0
      in json_int_part ip \<and>
         (if r1 \<noteq> [] \<and> hd r1 = CHR ''.''
          then takeWhile is_digit (tl r1) \<noteq> [] \<and> json_exp_part (dropWhile is_digit (tl r1))
          else json_exp_part r1))"



text \<open>The values the decoder can hand to an element.\<close>

definition decoded :: "json \<Rightarrow> bool" where
  "decoded v = (case v of JNumber s \<Rightarrow> json_number_literal s | _ \<Rightarrow> True)"

subsection \<open>Elements of a custom form\<close>

record Label =
  Label_Text :: string

record Input =
  Input_Text :: string
  Input_Default :: string
  Input_Placeholder :: string
  Input_Submit :: "nat option"

record Toggle =
  Toggle_Text :: string
  Toggle_Default :: bool
  Toggle_Submit :: "nat option"

record Slider =
  Slider_Text :: string
  Slider_Min :: float64
  Slider_Max :: float64
  Slider_StepSize :: float64
  Slider_Default :: float64
  Slider_Submit :: "nat option"

text \<open>\<^verbatim>\<open>type StepSlider Dropdown\<close>: the step slider has the fields of the dropdown.\<close>

record Dropdown =
  Dropdown_Text :: string
  Dropdown_Options :: "string list"
  Dropdown_DefaultIndex :: int
  Dropdown_Submit :: "nat option"

type_synonym StepSlider = Dropdown

record Button =
  Button_Text :: string
  Button_Image :: string
  Button_Submit :: "nat option"

text \<open>The types that implement the interface \<^verbatim>\<open>Element\<close>.\<close>

datatype Element =
    LabelElement Label
  | InputElement Input
  | ToggleElement Toggle
  | SliderElement Slider
  | DropdownElement Dropdown
  | StepSliderElement StepSlider

text \<open>The type assertion \<^verbatim>\<open>value.(json.Number)\<close>: the number, or the zero value and false.\<close>

definition as_Number :: "json \<Rightarrow> string \<times> bool" where
  "as_Number v = (case v of JNumber n \<Rightarrow> (n, True) | _ \<Rightarrow> ([], False))"

definition Label_submit :: "Label \<Rightarrow> json \<Rightarrow> result" where
  "Label_submit l v = ([], Returned None)"

definition Input_submit :: "Input \<Rightarrow> json \<Rightarrow> result" where
  "Input_submit i v =
     (case Input_Submit i of
        None \<Rightarrow> ([], Returned None)
      | Some cb \<Rightarrow>
          (case v of
             JString text \<Rightarrow>
               if \<not> ValidString text then ([], Returned (Some (ErrInputNotUTF8 v)))
               else ([Call ElementSubmit cb [AString text]], Returned None)
           | _ \<Rightarrow> ([], Returned (Some (ErrInputNotAllowed v)))))"

definition Toggle_submit :: "Toggle \<Rightarrow> json \<Rightarrow> result" where
  "Toggle_submit t v =
     (case Toggle_Submit t of
        None \<Rightarrow> ([], Returned None)
      | Some cb \<Rightarrow>
          (case v of
             JBool enabled \<Rightarrow> ([Call ElementSubmit cb [ABool enabled]], Returned None)
           | _ \<Rightarrow> ([], Returned (Some (ErrToggleNotAllowed v)))))"

definition Slider_submit :: "Slider \<Rightarrow> json \<Rightarrow> result" where
  "Slider_submit s v =
     (case Slider_Submit s of
        None \<Rightarrow> ([], Returned None)
      | Some cb \<Rightarrow>
          (let (number, ok) = as_Number v;
               (val, err) = Float64 number
           in if \<not> ok \<or> err \<noteq> None then ([], Returned (Some (ErrSliderNotAllowed v)))
              else if f64_lt val (Slider_Min s) \<or> f64_lt (Slider_Max s) val
              then ([], Returned (Some (ErrSliderOutOfRange val (Slider_Min s) (Slider_Max s))))
              else ([Call ElementSubmit cb [AFloat val]], Returned None)))"

definition Dropdown_submit :: "Dropdown \<Rightarrow> json \<Rightarrow> result" where
  "Dropdown_submit d v =
     (case Dropdown_Submit d of
        None \<Rightarrow> ([], Returned None)
      | Some cb \<Rightarrow>
          (let (number, ok) = as_Number v;
               (val, err) = Int64 number
           in if \<not> ok \<or> err \<noteq> None then ([], Returned (Some (ErrDropdownNotAllowed v)))
              else if val < 0 \<or> int (length (Dropdown_Options d)) \<le> val
              then ([], Returned (Some (ErrDropdownOutOfRange val (int (length (Dropdown_Options d)) - 1))))
              else (case index (Dropdown_Options d) val of
                      None \<Rightarrow> ([], Panicked)
                    | Some option \<Rightarrow> ([Call ElementSubmit cb [AInt val, AString option]], Returned None))))"

definition StepSlider_submit :: "StepSlider \<Rightarrow> json \<Rightarrow> result" where
  "StepSlider_submit s v =
     (case Dropdown_Submit s of
        None \<Rightarrow> ([], Returned None)
      | Some cb \<Rightarrow>
          (let (number, ok) = as_Number v;
               (val, err) = Int64 number
           in if \<not> ok \<or> err \<noteq> None then ([], Returned (Some (ErrStepSliderNotAllowed v)))
              else if val < 0 \<or> int (length (Dropdown_Options s)) \<le> val
              then ([], Returned (Some (ErrDropdownOutOfRange val (int (length (Dropdown_Options s)) - 1))))
              else (case index (Dropdown_Options s) val of
                      None \<Rightarrow> ([], Panicked)
                    | Some option \<Rightarrow> ([Call ElementSubmit cb [AInt val, AString option]], Returned None))))"

text \<open>The method call \<^verbatim>\<open>element.submit(value)\<close> through the interface.\<close>

fun submit :: "Element \<Rightarrow> json \<Rightarrow> result" where
  "submit (LabelElement l) v = Label_submit l v"
| "submit (InputElement i) v = Input_submit i v"
| "submit (ToggleElement t) v = Toggle_submit t v"
| "submit (SliderElement s) v = Slider_submit s v"
| "submit (DropdownElement d) v = Dropdown_submit d v"
| "submit (StepSliderElement s) v = StepSlider_submit s v"

subsection \<open>Decoding a whole response\<close>

text \<open>
  \<^verbatim>\<open>json.Unmarshal(data, &v)\<close> for a \<^verbatim>\<open>bool\<close> or a \<^verbatim>\<open>uint\<close> variable. The data must be one
  JSON value between optional white space. The literal \<^verbatim>\<open>null\<close> leaves the variable as it
  is and is no error (documented for every Go type that has no nil); a value of the
  variable's type is stored; everything else, malformed or of another type, is an error
  and leaves the variable as it is. The second argument is the variable's value before
  the call, the result holds its value after the call.
\<close>

definition is_space :: "char \<Rightarrow> bool" where
  "is_space c = (c = CHR '' '' \<or> c = CHR 0x09 \<or> c = CHR 0x0A \<or> c = CHR 0x0D)"

definition trim :: "string \<Rightarrow> string" where
  "trim s = rev (dropWhile is_space (rev (dropWhile is_space s)))"

definition Unmarshal_bool :: "string \<Rightarrow> bool \<Rightarrow> bool \<times> error option" where
  "Unmarshal_bool data v =
     (let lit = trim data
      in if lit = ''null'' then (v, None)
         else if lit = ''true'' then (True, None)
         else if lit = ''false'' then (False, None)
         else (v, Some ErrUnmarshal))"

definition Unmarshal_uint :: "string \<Rightarrow> nat \<Rightarrow> nat \<times> error option" where
  "Unmarshal_uint data v =
     (let lit = trim data
      in if lit = ''null'' then (v, None)
         else if json_int_part lit \<and> digits_value lit < 2 ^ 64 then (digits_value lit, None)
         else (v, Some ErrUnmarshal))"

text \<open>\<^verbatim>\<open>if f != nil { f(args) }\<close>\<close>

definition invoke :: "field \<Rightarrow> nat option \<Rightarrow> arg list \<Rightarrow> event list" where
  "invoke fld f args = (case f of None \<Rightarrow> [] | Some c \<Rightarrow> [Call fld c args])"

subsection \<open>The custom form\<close>

record Custom =
  Custom_Title :: string
  Custom_Elements :: "Element list"
  Custom_Submit :: "nat option"

definition Custom_Element :: "Custom \<Rightarrow> Element \<Rightarrow> Custom" where
  "Custom_Element form element = form\<lparr>Custom_Elements := Custom_Elements form @ [element]\<rparr>"

text \<open>
  The loop \<^verbatim>\<open>for i, element := range form.Elements\<close>, from index \<open>i\<close> on: it stops at
  the first element whose \<^verbatim>\<open>submit\<close> returns an error and wraps that error.
\<close>

fun submit_elements :: "nat \<Rightarrow> Element list \<Rightarrow> json list \<Rightarrow> result" where
  "submit_elements i [] inputData = ([], Returned None)"
| "submit_elements i (element # rest) inputData =
     (case index inputData (int i) of
        None \<Rightarrow> ([], Panicked)
      | Some v \<Rightarrow>
          (case submit element v of
             (evs, Returned None) \<Rightarrow>
               (case submit_elements (Suc i) rest inputData of (evs', r) \<Rightarrow> (evs @ evs', r))
           | (evs, Returned (Some err)) \<Rightarrow> (evs, Returned (Some (ErrParsingResponseValue err)))
           | (evs, Panicked) \<Rightarrow> (evs, Panicked)))"

text \<open>
  \<open>Decode\<close> stands for the library's \<^verbatim>\<open>dec.Decode(&inputData)\<close> on a decoder with
  \<^verbatim>\<open>UseNumber\<close>: from the bytes to an error or the decoded \<^verbatim>\<open>[]any\<close>.
\<close>

definition Custom_SubmitJSON ::
  "(string \<Rightarrow> error + json list) \<Rightarrow> Custom \<Rightarrow> string option \<Rightarrow> result" where
  "Custom_SubmitJSON Decode form data =
     (case data of
        None \<Rightarrow> (invoke FormSubmit (Custom_Submit form) [ABool True], Returned None)
      | Some bytes \<Rightarrow>
          (case Decode bytes of
             Inl err \<Rightarrow> ([], Returned (Some (ErrDecodingSlice err)))
           | Inr inputData \<Rightarrow>
               if length (Custom_Elements form) \<noteq> length inputData
               then ([], Returned (Some ErrNotEnoughValues))
               else (case submit_elements 0 (Custom_Elements form) inputData of
                       (evs, Returned None) \<Rightarrow>
                         (evs @ invoke FormSubmit (Custom_Submit form) [ABool False], Returned None)
                     | (evs, r) \<Rightarrow> (evs, r))))"

subsection \<open>The menu form\<close>

text \<open>
  \<^verbatim>\<open>menu.go\<close>: the menu holds elements of the interface \<^verbatim>\<open>MenuElement\<close>, of which only
  the buttons matter to it. The other element types are declared outside the files at
  hand: they are the type parameter \<open>'x\<close>.
\<close>

datatype 'x MenuElement = ButtonElement Button | OtherElement 'x

record 'x Menu =
  Menu_Title :: string
  Menu_Content :: string
  Menu_Elements :: "'x MenuElement list"
  Menu_Submit :: "nat option"
  Menu_buttons :: "Button list"

definition Menu_Element :: "'x Menu \<Rightarrow> 'x MenuElement \<Rightarrow> 'x Menu" where
  "Menu_Element form e = form\<lparr>Menu_Elements := Menu_Elements form @ [e]\<rparr>"

definition Menu_SubmitJSON :: "'x Menu \<Rightarrow> string option \<Rightarrow> nat \<Rightarrow> result" where
  "Menu_SubmitJSON form data tx =
     (case data of
        None \<Rightarrow> (invoke FormSubmit (Menu_Submit form) [ABool True, ATx tx], Returned None)
      | Some bytes \<Rightarrow>
          (case Unmarshal_uint bytes 0 of
             (idx, Some err) \<Rightarrow> ([], Returned (Some (ErrParseButtonIndex err)))
           | (idx, None) \<Rightarrow>
               if length (Menu_buttons form) \<le> idx
               then ([], Returned (Some (ErrInvalidButton idx (length (Menu_buttons form)))))
               else (case index (Menu_buttons form) (int idx) of
                       None \<Rightarrow> ([], Panicked)
                     | Some button \<Rightarrow>
                         (invoke ButtonSubmit (Button_Submit button) [ATx tx]
                          @ invoke FormSubmit (Menu_Submit form) [ABool False, ATx tx], Returned None))))"

text \<open>
  The other revision of the menu among the files holds its buttons in the exported
  field \<^verbatim>\<open>Buttons\<close> and calls the callbacks without a transaction.
\<close>

record ButtonMenu =
  ButtonMenu_Title :: string
  ButtonMenu_Content :: string
  ButtonMenu_Buttons :: "Button list option"
  ButtonMenu_Submit :: "nat option"

definition slice :: "'a list option \<Rightarrow> 'a list" where
  "slice s = (case s of None \<Rightarrow> [] | Some xs \<Rightarrow> xs)"

definition ButtonMenu_Button :: "ButtonMenu \<Rightarrow> Button \<Rightarrow> ButtonMenu" where
  "ButtonMenu_Button form button =
     form\<lparr>ButtonMenu_Buttons := Some (slice (ButtonMenu_Buttons form) @ [button])\<rparr>"

definition ButtonMenu_SubmitJSON :: "ButtonMenu \<Rightarrow> string option \<Rightarrow> result" where
  "ButtonMenu_SubmitJSON form data =
     (case data of
        None \<Rightarrow> (invoke FormSubmit (ButtonMenu_Submit form) [ABool True], Returned None)
      | Some bytes \<Rightarrow>
          (case Unmarshal_uint bytes 0 of
             (idx, Some err) \<Rightarrow> ([], Returned (Some (ErrParseButtonIndex err)))
           | (idx, None) \<Rightarrow>
               if length (slice (ButtonMenu_Buttons form)) \<le> idx
               then ([], Returned (Some (ErrInvalidButton idx
                                          (length (slice (ButtonMenu_Buttons form))))))
               else (case index (slice (ButtonMenu_Buttons form)) (int idx) of
                       None \<Rightarrow> ([], Panicked)
                     | Some button \<Rightarrow>
                         (invoke ButtonSubmit (Button_Submit button) []
                          @ invoke FormSubmit (ButtonMenu_Submit form) [ABool False], Returned None))))"

subsection \<open>The modal form\<close>

record Modal =
  Modal_Title :: string
  Modal_Content :: string
  Modal_Button1 :: Button
  Modal_Button2 :: Button
  Modal_Submit :: "nat option"

definition Modal_SubmitJSON :: "Modal \<Rightarrow> string option \<Rightarrow> result" where
  "Modal_SubmitJSON form data =
     (case data of
        None \<Rightarrow> (invoke FormSubmit (Modal_Submit form) [ABool True], Returned None)
      | Some bytes \<Rightarrow>
          (case Unmarshal_bool bytes False of
             (v, Some err) \<Rightarrow> ([], Returned (Some (ErrParsingBool err)))
           | (v, None) \<Rightarrow>
               (let button = (if \<not> v then Modal_Button2 form else Modal_Button1 form)
                in (invoke ButtonSubmit (Button_Submit button) []
                    @ invoke FormSubmit (Modal_Submit form) [ABool False], Returned None))))"

subsection \<open>Serialization\<close>

text \<open>
  The result of \<^verbatim>\<open>json.Marshal\<close> as a document tree rather than as bytes: an object is the
  list of its members, written in the order of the map literal in the source (the
  encoder emits them sorted by key). The encoder refuses a float64 that is a NaN or an
  infinity, and reports the error of a nested \<^verbatim>\<open>MarshalJSON\<close> wrapped.
\<close>

datatype doc =
    DString string
  | DBool bool
  | DInt int
  | DFloat float64
  | DArray "doc list"
  | DObject "(string \<times> doc) list"

fun sequence :: "(error + 'a) list \<Rightarrow> error + 'a list" where
  "sequence [] = Inr []"
| "sequence (Inl e # rs) = Inl e"
| "sequence (Inr x # rs) = (case sequence rs of Inl e \<Rightarrow> Inl e | Inr xs \<Rightarrow> Inr (x # xs))"

definition Marshal_map :: "(string \<times> (error + doc)) list \<Rightarrow> error + doc" where
  "Marshal_map m =
     (case sequence (map snd m) of
        Inl e \<Rightarrow> Inl e
      | Inr vs \<Rightarrow> Inr (DObject (zip (map fst m) vs)))"

definition Marshal_float :: "float64 \<Rightarrow> error + doc" where
  "Marshal_float x = (if f64_finite x then Inr (DFloat x) else Inl ErrUnsupportedValue)"

definition Marshal_slice :: "(error + doc) list \<Rightarrow> error + doc" where
  "Marshal_slice rs =
     (case sequence rs of Inl e \<Rightarrow> Inl (ErrMarshaler e) | Inr ds \<Rightarrow> Inr (DArray ds))"

definition HasPrefix :: "string \<Rightarrow> string \<Rightarrow> bool" where
  "HasPrefix s p = (take (length p) s = p)"

definition Label_MarshalJSON :: "Label \<Rightarrow> error + doc" where
  "Label_MarshalJSON l =
     Marshal_map [(''type'', Inr (DString ''label'')),
                  (''text'', Inr (DString (Label_Text l)))]"

definition Input_MarshalJSON :: "Input \<Rightarrow> error + doc" where
  "Input_MarshalJSON i =
     Marshal_map [(''type'', Inr (DString ''input'')),
                  (''text'', Inr (DString (Input_Text i))),
                  (''default'', Inr (DString (Input_Default i))),
                  (''placeholder'', Inr (DString (Input_Placeholder i)))]"

definition Toggle_MarshalJSON :: "Toggle \<Rightarrow> error + doc" where
  "Toggle_MarshalJSON t =
     Marshal_map [(''type'', Inr (DString ''toggle'')),
                  (''text'', Inr (DString (Toggle_Text t))),
                  (''default'', Inr (DBool (Toggle_Default t)))]"

definition Slider_MarshalJSON :: "Slider \<Rightarrow> error + doc" where
  "Slider_MarshalJSON s =
     Marshal_map [(''type'', Inr (DString ''slider'')),
                  (''text'', Inr (DString (Slider_Text s))),
                  (''min'', Marshal_float (Slider_Min s)),
                  (''max'', Marshal_float (Slider_Max s)),
                  (''step'', Marshal_float (Slider_StepSize s)),
                  (''default'', Marshal_float (Slider_Default s))]"

definition Dropdown_MarshalJSON :: "Dropdown \<Rightarrow> error + doc" where
  "Dropdown_MarshalJSON d =
     Marshal_map [(''type'', Inr (DString ''dropdown'')),
                  (''text'', Inr (DString (Dropdown_Text d))),
                  (''default'', Inr (DInt (Dropdown_DefaultIndex d))),
                  (''options'', Inr (DArray (map DString (Dropdown_Options d))))]"

definition StepSlider_MarshalJSON :: "StepSlider \<Rightarrow> error + doc" where
  "StepSlider_MarshalJSON s =
     Marshal_map [(''type'', Inr (DString ''step_slider'')),
                  (''text'', Inr (DString (Dropdown_Text s))),
                  (''default'', Inr (DInt (Dropdown_DefaultIndex s))),
                  (''steps'', Inr (DArray (map DString (Dropdown_Options s))))]"

definition Button_MarshalJSON :: "Button \<Rightarrow> error + doc" where
  "Button_MarshalJSON b =
     (let m = [(''text'', Inr (DString (Button_Text b)))]
      in if Button_Image b \<noteq> []
         then (let buttonType =
                     (if HasPrefix (Button_Image b) ''http:'' \<or> HasPrefix (Button_Image b) ''https:''
                      then ''url'' else ''path'')
               in Marshal_map
                    (m @ [(''image'',
                           Marshal_map [(''type'', Inr (DString buttonType)),
                                        (''data'', Inr (DString (Button_Image b)))])]))
         else Marshal_map m)"

fun Element_MarshalJSON :: "Element \<Rightarrow> error + doc" where
  "Element_MarshalJSON (LabelElement l) = Label_MarshalJSON l"
| "Element_MarshalJSON (InputElement i) = Input_MarshalJSON i"
| "Element_MarshalJSON (ToggleElement t) = Toggle_MarshalJSON t"
| "Element_MarshalJSON (SliderElement s) = Slider_MarshalJSON s"
| "Element_MarshalJSON (DropdownElement d) = Dropdown_MarshalJSON d"
| "Element_MarshalJSON (StepSliderElement s) = StepSlider_MarshalJSON s"

text \<open>
  The forms have pointer receivers: their \<^verbatim>\<open>MarshalJSON\<close> returns the receiver as it is
  after the call, and the result.
\<close>

definition Custom_MarshalJSON :: "Custom \<Rightarrow> Custom \<times> (error + doc)" where
  "Custom_MarshalJSON form =
     (if length (Custom_Elements form) = 0 then (form, Inl ErrNoElements)
      else (form,
            Marshal_map [(''type'', Inr (DString ''custom_form'')),
                         (''title'', Inr (DString (Custom_Title form))),
                         (''content'',
                          Marshal_slice (map Element_MarshalJSON (Custom_Elements form)))]))"

text \<open>
  The loop of \<^verbatim>\<open>Menu.MarshalJSON\<close> that appends every element that is a \<^verbatim>\<open>Button\<close> to
  \<^verbatim>\<open>form.buttons\<close>.
\<close>

fun collect_buttons :: "'x MenuElement list \<Rightarrow> Button list \<Rightarrow> Button list" where
  "collect_buttons [] buttons = buttons"
| "collect_buttons (ButtonElement button # es) buttons = collect_buttons es (buttons @ [button])"
| "collect_buttons (OtherElement x # es) buttons = collect_buttons es buttons"

text \<open>\<open>marshalOther\<close> stands for the \<^verbatim>\<open>MarshalJSON\<close> of the element types not at hand.\<close>

fun MenuElement_MarshalJSON :: "('x \<Rightarrow> error + doc) \<Rightarrow> 'x MenuElement \<Rightarrow> error + doc" where
  "MenuElement_MarshalJSON marshalOther (ButtonElement b) = Button_MarshalJSON b"
| "MenuElement_MarshalJSON marshalOther (OtherElement x) = marshalOther x"

definition Menu_MarshalJSON ::
  "('x \<Rightarrow> error + doc) \<Rightarrow> 'x Menu \<Rightarrow> 'x Menu \<times> (error + doc)" where
  "Menu_MarshalJSON marshalOther form =
     (let form' = form\<lparr>Menu_buttons := collect_buttons (Menu_Elements form) []\<rparr>
      in (form',
          Marshal_map [(''type'', Inr (DString ''form'')),
                       (''title'', Inr (DString (Menu_Title form'))),
                       (''content'', Inr (DString (Menu_Content form'))),
                       (''elements'',
                        Marshal_slice (map (MenuElement_MarshalJSON marshalOther)
                                           (Menu_Elements form')))]))"

definition ButtonMenu_MarshalJSON :: "ButtonMenu \<Rightarrow> ButtonMenu \<times> (error + doc)" where
  "ButtonMenu_MarshalJSON form =
     (let form' = (if ButtonMenu_Buttons form = None
                   then form\<lparr>ButtonMenu_Buttons := Some []\<rparr> else form)
      in (form',
          Marshal_map [(''type'', Inr (DString ''form'')),
                       (''title'', Inr (DString (ButtonMenu_Title form'))),
                       (''content'', Inr (DString (ButtonMenu_Content form'))),
                       (''buttons'',
                        Marshal_slice (map Button_MarshalJSON
                                           (slice (ButtonMenu_Buttons form'))))]))"

definition Modal_MarshalJSON :: "Modal \<Rightarrow> Modal \<times> (error + doc)" where
  "Modal_MarshalJSON form =
     (form,
      Marshal_map [(''type'', Inr (DString ''modal'')),
                   (''title'', Inr (DString (Modal_Title form))),
                   (''content'', Inr (DString (Modal_Content form))),
                   (''button1'', Inr (DString (Button_Text (Modal_Button1 form)))),
                   (''button2'', Inr (DString (Button_Text (Modal_Button2 form))))])"

text \<open>Reading a serialized form: its members' keys and the member \<^verbatim>\<open>type\<close>.\<close>

definition keys :: "doc \<Rightarrow> string list" where
  "keys d = (case d of DObject m \<Rightarrow> map fst m | _ \<Rightarrow> [])"

definition member_of :: "doc \<Rightarrow> string \<Rightarrow> doc option" where
  "member_of d k = (case d of DObject m \<Rightarrow> map_of m k | _ \<Rightarrow> None)"

definition is_object :: "doc \<Rightarrow> bool" where
  "is_object d = (case d of DObject m \<Rightarrow> True | _ \<Rightarrow> False)"

subsection \<open>The notions the properties are stated with\<close>




text \<open>
  A number lies outside a slider's range when its float64 value compares below the
  minimum or above the maximum.
\<close>

definition outside :: "Slider \<Rightarrow> string \<Rightarrow> bool" where
  "outside s n =
     (f64_lt (fst (Float64 n)) (Slider_Min s) \<or> f64_lt (Slider_Max s) (fst (Float64 n)))"


text \<open>The data is a JSON boolean: \<^verbatim>\<open>true\<close> or \<^verbatim>\<open>false\<close> between optional white space.\<close>

definition json_boolean :: "string \<Rightarrow> bool" where
  "json_boolean data = (trim data = ''true'' \<or> trim data = ''false'')"

text \<open>An element the encoder can write: every float64 of a slider is finite.\<close>

fun serializable :: "Element \<Rightarrow> bool" where
  "serializable (SliderElement s) =
     (f64_finite (Slider_Min s) \<and> f64_finite (Slider_Max s)
      \<and> f64_finite (Slider_StepSize s) \<and> f64_finite (Slider_Default s))"
| "serializable e = True"

text \<open>The shape of a serialized form: an object with the given type and members.\<close>

definition shaped :: "doc \<Rightarrow> string \<Rightarrow> string list \<Rightarrow> bool" where
  "shaped d ty ks =
     (is_object d \<and> member_of d ''type'' = Some (DString ty) \<and> keys d = ks)"

text \<open>The elements of a menu that are buttons, in order.\<close>

fun buttons_of :: "'x MenuElement list \<Rightarrow> Button list" where
  "buttons_of [] = []"
| "buttons_of (ButtonElement b # es) = b # buttons_of es"
| "buttons_of (OtherElement x # es) = buttons_of es"

text \<open>
  The response validates: it decodes to as many values as the form has elements, and
  the \<^verbatim>\<open>submit\<close> of every element returns nil on its value.
\<close>

definition validates :: "(string \<Rightarrow> error + json list) \<Rightarrow> Custom \<Rightarrow> string \<Rightarrow> bool" where
  "validates Decode form bytes =
     (case Decode bytes of
        Inl err \<Rightarrow> False
      | Inr inputData \<Rightarrow>
          length (Custom_Elements form) = length inputData \<and>
          list_all (\<lambda>(element, v). returns_nil (submit element v))
                   (zip (Custom_Elements form) inputData))"

text \<open>The callback events of the elements before position \<open>k\<close>.\<close>

definition events_before :: "nat \<Rightarrow> Element list \<Rightarrow> json list \<Rightarrow> event list" where
  "events_before k es vs = concat (map (\<lambda>(element, v). events (submit element v)) (take k (zip es vs)))"

section \<open>Properties\<close>

subsection \<open>What the conversions do on the decoder's numbers\<close>

lemma json_literal_body:
  assumes "json_number_literal s"
  shows "(if s \<noteq> [] \<and> (hd s = CHR ''+'' \<or> hd s = CHR ''-'') then tl s else s)
         = (if s \<noteq> [] \<and> hd s = CHR ''-'' then tl s else s)"
proof (cases "s \<noteq> [] \<and> hd s = CHR ''+''")
  case True
  then have "takeWhile is_digit s = []"
    by (cases s) (auto simp: is_digit_def)
  with True assms show ?thesis
    by (auto simp: json_number_literal_def Let_def json_int_part_def all_digits_def)
next
  case False
  then show ?thesis by auto
qed






lemma as_Number_simps [simp]:
  "as_Number (JNumber n) = (n, True)"
  "as_Number JNull = ([], False)"
  "as_Number (JBool b) = ([], False)"
  "as_Number (JString t) = ([], False)"
  "as_Number (JArray a) = ([], False)"
  "as_Number (JObject m) = ([], False)"
  by (simp_all add: as_Number_def)

lemma is_error_simps [simp]:
  "is_error (evs, Returned (Some e))"
  "\<not> is_error (evs, Returned None)"
  "\<not> is_error (evs, Panicked)"
  by (simp_all add: is_error_def)






text \<open>The slider's \<^verbatim>\<open>submit\<close>, once it has a callback, case by case.\<close>

lemma Slider_submit_cases:
  assumes "Slider_Submit s = Some cb"
  shows "Slider_submit s v =
     (case v of
        JNumber n \<Rightarrow>
          if snd (Float64 n) \<noteq> None then ([], Returned (Some (ErrSliderNotAllowed v)))
          else if outside s n
          then ([], Returned (Some (ErrSliderOutOfRange (fst (Float64 n)) (Slider_Min s) (Slider_Max s))))
          else ([Call ElementSubmit cb [AFloat (fst (Float64 n))]], Returned None)
      | _ \<Rightarrow> ([], Returned (Some (ErrSliderNotAllowed v))))"
  using assms
  by (cases v) (auto simp: Slider_submit_def outside_def split: prod.splits)

lemma f64_round_err:
  "snd (f64_round neg num den) = None \<or> snd (f64_round neg num den) = Some ErrRange"
  by (simp add: f64_round_def Let_def)

lemma f64_round_inf:
  "snd (f64_round neg num den) = Some ErrRange \<Longrightarrow>
   fst (f64_round neg num den) = (if neg then NegInf else PosInf)"
  by (simp add: f64_round_def Let_def split: if_splits)

lemma json_exp_part_syntax:
  assumes "json_exp_part r2"
  shows "\<not> ((r2 \<noteq> [] \<and> (hd r2 = CHR ''e'' \<or> hd r2 = CHR ''E'')) \<and>
            \<not> all_digits (if (r2 \<noteq> [] \<and> (hd r2 = CHR ''e'' \<or> hd r2 = CHR ''E''))
                             \<and> (if (r2 \<noteq> [] \<and> (hd r2 = CHR ''e'' \<or> hd r2 = CHR ''E'')) then tl r2 else r2) \<noteq> []
                             \<and> (hd (if (r2 \<noteq> [] \<and> (hd r2 = CHR ''e'' \<or> hd r2 = CHR ''E'')) then tl r2 else r2) = CHR ''+''
                                \<or> hd (if (r2 \<noteq> [] \<and> (hd r2 = CHR ''e'' \<or> hd r2 = CHR ''E'')) then tl r2 else r2) = CHR ''-'')
                           then tl (if (r2 \<noteq> [] \<and> (hd r2 = CHR ''e'' \<or> hd r2 = CHR ''E'')) then tl r2 else r2)
                           else (if (r2 \<noteq> [] \<and> (hd r2 = CHR ''e'' \<or> hd r2 = CHR ''E'')) then tl r2 else r2)))
       \<and> \<not> (\<not> (r2 \<noteq> [] \<and> (hd r2 = CHR ''e'' \<or> hd r2 = CHR ''E'')) \<and> r2 \<noteq> [])"
  using assms by (auto simp: json_exp_part_def)

lemma parse_decimal_decoded:
  assumes "json_number_literal s"
  shows "parse_decimal s \<noteq> None"
proof -
  define r0 where "r0 = (if s \<noteq> [] \<and> hd s = CHR ''-'' then tl s else s)"
  define r1 where "r1 = dropWhile is_digit r0"
  define point where "point = (r1 \<noteq> [] \<and> hd r1 = CHR ''.'')"
  define r2 where "r2 = (if point then dropWhile is_digit (tl r1) else r1)"
  have r0: "(if s \<noteq> [] \<and> (hd s = CHR ''+'' \<or> hd s = CHR ''-'') then tl s else s) = r0"
    using json_literal_body[OF assms] by (simp add: r0_def)
  from assms have ip: "takeWhile is_digit r0 \<noteq> []" and ex: "json_exp_part r2"
    by (auto simp: json_number_literal_def Let_def r0_def r1_def r2_def point_def
        json_int_part_def all_digits_def split: if_splits)
  note syn = json_exp_part_syntax[OF ex]
  show ?thesis
    unfolding parse_decimal_def Let_def r0
    unfolding r1_def[symmetric] point_def[symmetric]
    unfolding r2_def[symmetric]
    using ip syn by auto
qed

lemma Float64_decoded:
  assumes "json_number_literal s"
  shows "snd (Float64 s) = None \<or> snd (Float64 s) = Some ErrRange"
proof -
  from parse_decimal_decoded[OF assms] obtain neg m e where "parse_decimal s = Some (neg, m, e)"
    by (cases "parse_decimal s") auto
  then show ?thesis
    using f64_round_err by (simp add: Float64_def)
qed

text \<open>A range error comes with an infinity as the value.\<close>

lemma Float64_overflow:
  assumes "snd (Float64 s) = Some ErrRange"
  shows "fst (Float64 s) = PosInf \<or> fst (Float64 s) = NegInf"
proof (cases "parse_decimal s")
  case None
  with assms show ?thesis by (simp add: Float64_def)
next
  case (Some t)
  then obtain neg m e where "parse_decimal s = Some (neg, m, e)" by (cases t) auto
  with assms show ?thesis
    using f64_round_inf by (auto simp: Float64_def split: if_splits)
qed

subsection \<open>Validation by the elements\<close>







text \<open>
  Claim C3, as amended. For every slider with a callback, \<^verbatim>\<open>submit\<close> on a decoded value
  returns an error if and only if the value is not a JSON number, or the number is too
  large in magnitude to convert to a float64 (the conversion reports a range error), or
  its float64 value is strictly below \<^verbatim>\<open>Min\<close> or strictly above \<^verbatim>\<open>Max\<close>; otherwise it calls
  \<^verbatim>\<open>Submit\<close> with that float64 value and returns nil. The step size is not looked at.
\<close>

theorem Slider_submit_iff:
  assumes "Slider_Submit s = Some cb" and "decoded v"
  shows "(is_error (Slider_submit s v) \<longleftrightarrow>
            (case v of JNumber n \<Rightarrow> snd (Float64 n) = Some ErrRange \<or> outside s n | _ \<Rightarrow> True))
       \<and> (\<not> is_error (Slider_submit s v) \<longrightarrow>
            (\<exists>n. v = JNumber n \<and>
                 Slider_submit s v = ([Call ElementSubmit cb [AFloat (fst (Float64 n))]], Returned None)))"
proof (cases v)
  case (JNumber n)
  with assms(2) have "json_number_literal n" by (simp add: decoded_def)
  from Float64_decoded[OF this] Slider_submit_cases[OF assms(1), of v] JNumber
  show ?thesis by auto
qed (simp_all add: Slider_submit_cases[OF assms(1)])

theorem Slider_submit_iff_witness:
  "Slider_submit \<lparr>Slider_Text = ''volume'', Slider_Min = Finite 0, Slider_Max = Finite 10,
       Slider_StepSize = Finite 1, Slider_Default = Finite 5, Slider_Submit = Some 3\<rparr>
     (JNumber ''2.5'') = ([Call ElementSubmit 3 [AFloat (Finite (5 / 2))]], Returned None)
   \<and> is_error (Slider_submit \<lparr>Slider_Text = ''volume'', Slider_Min = Finite 0, Slider_Max = Finite 10,
       Slider_StepSize = Finite 1, Slider_Default = Finite 5, Slider_Submit = Some 3\<rparr>
     (JNumber ''11''))"
proof -
  let ?s = "\<lparr>Slider_Text = ''volume'', Slider_Min = Finite 0, Slider_Max = Finite 10,
       Slider_StepSize = Finite 1, Slider_Default = Finite 5, Slider_Submit = Some 3\<rparr>"
  have h1: "Slider_Submit ?s = Some 3" by simp
  have d1: "decoded (JNumber ''2.5'')" and d2: "decoded (JNumber ''11'')" by code_simp+
  have p1: "parse_decimal ''2.5'' = Some (False, 25, - 1)" by code_simp
  have p2: "parse_decimal ''11'' = Some (False, 11, 0)" by code_simp
  have f1: "Float64 ''2.5'' = (Finite (5 / 2), None)"
    by (simp add: Float64_def p1 f64_round_def pow2_def floor_log2_def round_half_even_def
        bit_length.simps Let_def)
  have f2: "Float64 ''11'' = (Finite 11, None)"
    by (simp add: Float64_def p2 f64_round_def pow2_def floor_log2_def round_half_even_def
        bit_length.simps Let_def)
  from Slider_submit_iff[OF h1 d1] f1
  have "Slider_submit ?s (JNumber ''2.5'') = ([Call ElementSubmit 3 [AFloat (Finite (5 / 2))]], Returned None)"
    by (simp add: outside_def)
  moreover from Slider_submit_iff[OF h1 d2] f2
  have "is_error (Slider_submit ?s (JNumber ''11''))"
    by (simp add: outside_def)
  ultimately show ?thesis by simp
qed

text \<open>
  Claim C3 as stated leaves out the failing conversion. The JSON number \<^verbatim>\<open>1e309\<close> is
  beyond the float64 range; a slider whose \<^verbatim>\<open>Max\<close> is the positive infinity rejects it,
  although the value the conversion yields, the positive infinity, is neither below
  \<^verbatim>\<open>Min\<close> nor above \<^verbatim>\<open>Max\<close>.
\<close>

theorem Slider_overflow_counterexample:
  "json_number_literal ''1e309''
   \<and> \<not> outside \<lparr>Slider_Text = ''volume'', Slider_Min = Finite 0, Slider_Max = PosInf,
         Slider_StepSize = Finite 1, Slider_Default = Finite 0, Slider_Submit = Some 3\<rparr> ''1e309''
   \<and> is_error (Slider_submit \<lparr>Slider_Text = ''volume'', Slider_Min = Finite 0, Slider_Max = PosInf,
         Slider_StepSize = Finite 1, Slider_Default = Finite 0, Slider_Submit = Some 3\<rparr>
       (JNumber ''1e309''))"
proof -
  have p: "parse_decimal ''1e309'' = Some (False, 1, 309)" by code_simp
  have f: "Float64 ''1e309'' = (PosInf, Some ErrRange)"
    by (simp add: Float64_def p f64_round_def)
  have l: "json_number_literal ''1e309''" by code_simp
  from f l show ?thesis
    by (simp add: outside_def Slider_submit_def)
qed

subsection \<open>Serialization of the forms\<close>

lemma sequence_Inr:
  "(\<forall>r \<in> set rs. \<exists>x. r = Inr x) \<Longrightarrow> \<exists>xs. sequence rs = Inr xs"
proof (induction rs)
  case Nil
  then show ?case by simp
next
  case (Cons r rs)
  then obtain x xs where "r = Inr x" "sequence rs = Inr xs" by auto
  then show ?case by simp
qed

lemma sequence_Inl:
  "r \<in> set rs \<Longrightarrow> r = Inl e \<Longrightarrow> \<exists>e'. sequence rs = Inl e'"
proof (induction rs)
  case Nil
  then show ?case by simp
next
  case (Cons a rs)
  then show ?case
    by (cases a) (auto split: sum.splits)
qed

lemma Marshal_slice_Inr:
  "(\<forall>r \<in> set rs. \<exists>x. r = Inr x) \<Longrightarrow> \<exists>ds. Marshal_slice rs = Inr (DArray ds)"
  using sequence_Inr[of rs] by (auto simp: Marshal_slice_def)

lemma Marshal_slice_Inl:
  "r \<in> set rs \<Longrightarrow> r = Inl e \<Longrightarrow> \<exists>e'. Marshal_slice rs = Inl e'"
  using sequence_Inl[of r rs e] by (auto simp: Marshal_slice_def)

lemma Button_MarshalJSON_Inr: "\<exists>d. Button_MarshalJSON b = Inr d"
  by (simp add: Button_MarshalJSON_def Marshal_map_def Let_def)

lemma Element_MarshalJSON_Inr:
  "serializable e \<Longrightarrow> \<exists>d. Element_MarshalJSON e = Inr d"
  by (cases e)
     (simp_all add: Label_MarshalJSON_def Input_MarshalJSON_def Toggle_MarshalJSON_def
        Slider_MarshalJSON_def Dropdown_MarshalJSON_def StepSlider_MarshalJSON_def
        Marshal_map_def Marshal_float_def)

lemma Element_MarshalJSON_Inl:
  "\<not> serializable e \<Longrightarrow> \<exists>err. Element_MarshalJSON e = Inl err"
  by (cases e)
     (auto simp add: Slider_MarshalJSON_def Marshal_map_def Marshal_float_def split: sum.splits)

lemma shaped_object:
  "map_of m ''type'' = Some (DString ty) \<Longrightarrow> map fst m = ks \<Longrightarrow> shaped (DObject m) ty ks"
  by (simp add: shaped_def is_object_def member_of_def keys_def)

lemma Modal_serializes:
  "\<exists>d. snd (Modal_MarshalJSON m) = Inr d \<and>
       shaped d ''modal'' [''type'', ''title'', ''content'', ''button1'', ''button2'']"
  by (simp add: Modal_MarshalJSON_def Marshal_map_def shaped_object)

lemma ButtonMenu_serializes:
  "\<exists>d. snd (ButtonMenu_MarshalJSON bm) = Inr d \<and>
       shaped d ''form'' [''type'', ''title'', ''content'', ''buttons'']"
proof -
  obtain ds where "Marshal_slice (map Button_MarshalJSON
        (slice (ButtonMenu_Buttons (if ButtonMenu_Buttons bm = None
                   then bm\<lparr>ButtonMenu_Buttons := Some []\<rparr> else bm)))) = Inr (DArray ds)"
    using Marshal_slice_Inr Button_MarshalJSON_Inr
    by (metis (no_types, lifting) imageE list.set_map)
  then show ?thesis
    by (simp add: ButtonMenu_MarshalJSON_def Marshal_map_def shaped_object Let_def)
qed

lemma Menu_serializes:
  assumes "\<forall>x. OtherElement x \<in> set (Menu_Elements mn) \<longrightarrow> (\<exists>d. marshalOther x = Inr d)"
  shows "\<exists>d. snd (Menu_MarshalJSON marshalOther mn) = Inr d \<and>
       shaped d ''form'' [''type'', ''title'', ''content'', ''elements'']"
proof -
  have "\<forall>r \<in> set (map (MenuElement_MarshalJSON marshalOther) (Menu_Elements mn)). \<exists>d. r = Inr d"
  proof
    fix r assume "r \<in> set (map (MenuElement_MarshalJSON marshalOther) (Menu_Elements mn))"
    then obtain e where e: "e \<in> set (Menu_Elements mn)" "r = MenuElement_MarshalJSON marshalOther e"
      by auto
    with assms Button_MarshalJSON_Inr show "\<exists>d. r = Inr d"
      by (cases e) auto
  qed
  from Marshal_slice_Inr[OF this] obtain ds where
    "Marshal_slice (map (MenuElement_MarshalJSON marshalOther) (Menu_Elements mn)) = Inr (DArray ds)"
    by blast
  then show ?thesis
    by (simp add: Menu_MarshalJSON_def Marshal_map_def shaped_object Let_def)
qed

lemma Custom_serializes:
  assumes "Custom_Elements c \<noteq> []" and "\<forall>e \<in> set (Custom_Elements c). serializable e"
  shows "\<exists>d. snd (Custom_MarshalJSON c) = Inr d \<and>
       shaped d ''custom_form'' [''type'', ''title'', ''content'']"
proof -
  from assms(2) have "\<forall>r \<in> set (map Element_MarshalJSON (Custom_Elements c)). \<exists>d. r = Inr d"
    using Element_MarshalJSON_Inr by auto
  from Marshal_slice_Inr[OF this] obtain ds where
    "Marshal_slice (map Element_MarshalJSON (Custom_Elements c)) = Inr (DArray ds)"
    by blast
  with assms(1) show ?thesis
    by (simp add: Custom_MarshalJSON_def Marshal_map_def shaped_object)
qed

lemma Custom_MarshalJSON_fails:
  assumes "Custom_Elements c = [] \<or> (\<exists>e \<in> set (Custom_Elements c). \<not> serializable e)"
  shows "\<exists>err. snd (Custom_MarshalJSON c) = Inl err"
proof (cases "Custom_Elements c = []")
  case True
  then show ?thesis by (simp add: Custom_MarshalJSON_def)
next
  case False
  with assms obtain e where e: "e \<in> set (Custom_Elements c)" "\<not> serializable e" by auto
  from Element_MarshalJSON_Inl[OF e(2)] obtain err where err: "Element_MarshalJSON e = Inl err" ..
  from e(1) have "Element_MarshalJSON e \<in> set (map Element_MarshalJSON (Custom_Elements c))"
    by (simp only: set_map) (rule imageI)
  from Marshal_slice_Inl[OF this err] False
  show ?thesis
    by (auto simp: Custom_MarshalJSON_def Marshal_map_def)
qed

text \<open>
  Claim C4, as amended. Every modal and every menu serializes to a JSON object whose
  member \<^verbatim>\<open>type\<close> is \<^verbatim>\<open>modal\<close>, respectively \<^verbatim>\<open>form\<close>, with a set of keys fixed by the form
  type (for the menu of \<^verbatim>\<open>menu.go\<close>: provided its elements other than buttons serialize).
  A custom form serializes, to an object of type \<^verbatim>\<open>custom_form\<close> with the keys \<^verbatim>\<open>type\<close>,
  \<^verbatim>\<open>title\<close> and \<^verbatim>\<open>content\<close>, when it has at least one element and the encoder can write
  every element; \<^verbatim>\<open>MarshalJSON\<close> returns an error when the form has no element, and when
  a slider holds a float64 that is a NaN or an infinity.
\<close>

theorem MarshalJSON_shape:
  "(\<exists>d. snd (Modal_MarshalJSON m) = Inr d \<and>
        shaped d ''modal'' [''type'', ''title'', ''content'', ''button1'', ''button2''])
   \<and> (\<exists>d. snd (ButtonMenu_MarshalJSON bm) = Inr d \<and>
        shaped d ''form'' [''type'', ''title'', ''content'', ''buttons''])
   \<and> ((\<forall>x. OtherElement x \<in> set (Menu_Elements mn) \<longrightarrow> (\<exists>d. marshalOther x = Inr d)) \<longrightarrow>
        (\<exists>d. snd (Menu_MarshalJSON marshalOther mn) = Inr d \<and>
           shaped d ''form'' [''type'', ''title'', ''content'', ''elements'']))
   \<and> (Custom_Elements c \<noteq> [] \<and> (\<forall>e \<in> set (Custom_Elements c). serializable e) \<longrightarrow>
        (\<exists>d. snd (Custom_MarshalJSON c) = Inr d \<and>
           shaped d ''custom_form'' [''type'', ''title'', ''content'']))
   \<and> (Custom_Elements c = [] \<or> (\<exists>e \<in> set (Custom_Elements c). \<not> serializable e) \<longrightarrow>
        (\<exists>err. snd (Custom_MarshalJSON c) = Inl err))"
  using Modal_serializes[of m] ButtonMenu_serializes[of bm]
    Menu_serializes[of mn marshalOther] Custom_serializes[of c]
    Custom_MarshalJSON_fails[of c]
  by blast

theorem MarshalJSON_shape_witness:
  "(\<exists>d. snd (Menu_MarshalJSON (\<lambda>x::string. Inr (DString x))
             \<lparr>Menu_Title = ''shop'', Menu_Content = ''pick one'',
              Menu_Elements = [OtherElement ''header'',
                ButtonElement \<lparr>Button_Text = ''buy'', Button_Image = [], Button_Submit = Some 1\<rparr>],
              Menu_Submit = None, Menu_buttons = []\<rparr>) = Inr d \<and>
        shaped d ''form'' [''type'', ''title'', ''content'', ''elements''])
   \<and> (\<exists>d. snd (Custom_MarshalJSON
             \<lparr>Custom_Title = ''settings'',
              Custom_Elements = [LabelElement \<lparr>Label_Text = ''hello''\<rparr>,
                SliderElement \<lparr>Slider_Text = ''volume'', Slider_Min = Finite 0,
                  Slider_Max = Finite 10, Slider_StepSize = Finite 1, Slider_Default = Finite 5,
                  Slider_Submit = None\<rparr>],
              Custom_Submit = None\<rparr>) = Inr d \<and>
        shaped d ''custom_form'' [''type'', ''title'', ''content''])
   \<and> (\<exists>err. snd (Custom_MarshalJSON
             \<lparr>Custom_Title = ''broken'',
              Custom_Elements = [SliderElement \<lparr>Slider_Text = ''volume'', Slider_Min = Finite 0,
                  Slider_Max = PosInf, Slider_StepSize = Finite 1, Slider_Default = Finite 5,
                  Slider_Submit = None\<rparr>],
              Custom_Submit = None\<rparr>) = Inl err)"
proof -
  let ?mn = "\<lparr>Menu_Title = ''shop'', Menu_Content = ''pick one'',
              Menu_Elements = [OtherElement ''header'',
                ButtonElement \<lparr>Button_Text = ''buy'', Button_Image = [], Button_Submit = Some 1\<rparr>],
              Menu_Submit = None, Menu_buttons = []\<rparr>"
  let ?c = "\<lparr>Custom_Title = ''settings'',
              Custom_Elements = [LabelElement \<lparr>Label_Text = ''hello''\<rparr>,
                SliderElement \<lparr>Slider_Text = ''volume'', Slider_Min = Finite 0,
                  Slider_Max = Finite 10, Slider_StepSize = Finite 1, Slider_Default = Finite 5,
                  Slider_Submit = None\<rparr>],
              Custom_Submit = None\<rparr>"
  let ?b = "\<lparr>Custom_Title = ''broken'',
              Custom_Elements = [SliderElement \<lparr>Slider_Text = ''volume'', Slider_Min = Finite 0,
                  Slider_Max = PosInf, Slider_StepSize = Finite 1, Slider_Default = Finite 5,
                  Slider_Submit = None\<rparr>],
              Custom_Submit = None\<rparr>"
  have h1: "\<forall>x. OtherElement x \<in> set (Menu_Elements ?mn) \<longrightarrow>
              (\<exists>d. (\<lambda>x::string. Inr (DString x)) x = (Inr d :: error + doc))"
    by simp
  have h2: "Custom_Elements ?c \<noteq> [] \<and> (\<forall>e \<in> set (Custom_Elements ?c). serializable e)"
    by (simp add: f64_finite_def)
  have h3: "Custom_Elements ?b = [] \<or> (\<exists>e \<in> set (Custom_Elements ?b). \<not> serializable e)"
    by (simp add: f64_finite_def)
  from MarshalJSON_shape[where mn = "?mn" and marshalOther = "\<lambda>x. Inr (DString x)" and c = "?c"] h1 h2
  have a: "(\<exists>d. snd (Menu_MarshalJSON (\<lambda>x::string. Inr (DString x)) ?mn) = Inr d \<and>
        shaped d ''form'' [''type'', ''title'', ''content'', ''elements''])
      \<and> (\<exists>d. snd (Custom_MarshalJSON ?c) = Inr d \<and>
        shaped d ''custom_form'' [''type'', ''title'', ''content''])"
    by blast
  from MarshalJSON_shape[where mn = "?mn" and marshalOther = "\<lambda>x. Inr (DString x)" and c = "?b"] h3
  have "\<exists>err. snd (Custom_MarshalJSON ?b) = Inl err"
    by blast
  with a show ?thesis by blast
qed

text \<open>
  Claim C4 as stated, for every custom form, fails: \<^verbatim>\<open>Custom.MarshalJSON\<close> refuses a form
  without elements.
\<close>

theorem Custom_MarshalJSON_counterexample:
  "snd (Custom_MarshalJSON \<lparr>Custom_Title = ''empty'', Custom_Elements = [], Custom_Submit = None\<rparr>)
     = Inl ErrNoElements"
  by (simp add: Custom_MarshalJSON_def)

subsection \<open>What serialization does to the receiver\<close>

lemma collect_buttons_append: "collect_buttons es acc = acc @ buttons_of es"
  by (induction es acc rule: collect_buttons.induct) simp_all

text \<open>
  Claim C8, as amended. \<^verbatim>\<open>MarshalJSON\<close> leaves every field of a custom form and of a modal
  unchanged. On a menu it changes the slice of buttons and nothing else: in \<^verbatim>\<open>menu.go\<close>
  the unexported field \<^verbatim>\<open>buttons\<close> becomes the buttons among the elements, in their order;
  in the other revision a nil \<^verbatim>\<open>Buttons\<close> becomes an empty slice.
\<close>

theorem MarshalJSON_frame:
  "fst (Custom_MarshalJSON c) = c
   \<and> fst (Modal_MarshalJSON m) = m
   \<and> fst (Menu_MarshalJSON marshalOther mn) = mn\<lparr>Menu_buttons := buttons_of (Menu_Elements mn)\<rparr>
   \<and> fst (ButtonMenu_MarshalJSON bm) = bm\<lparr>ButtonMenu_Buttons := Some (slice (ButtonMenu_Buttons bm))\<rparr>"
  by (cases "ButtonMenu_Buttons bm")
     (simp_all add: Custom_MarshalJSON_def Modal_MarshalJSON_def Menu_MarshalJSON_def
        ButtonMenu_MarshalJSON_def collect_buttons_append Let_def slice_def)

theorem MarshalJSON_frame_witness:
  "fst (Menu_MarshalJSON (\<lambda>x::string. Inr (DString x))
          \<lparr>Menu_Title = ''shop'', Menu_Content = ''pick one'',
           Menu_Elements = [OtherElement ''header'',
             ButtonElement \<lparr>Button_Text = ''buy'', Button_Image = [], Button_Submit = Some 1\<rparr>],
           Menu_Submit = Some 2, Menu_buttons = []\<rparr>)
     = \<lparr>Menu_Title = ''shop'', Menu_Content = ''pick one'',
           Menu_Elements = [OtherElement ''header'',
             ButtonElement \<lparr>Button_Text = ''buy'', Button_Image = [], Button_Submit = Some 1\<rparr>],
           Menu_Submit = Some 2,
           Menu_buttons = [\<lparr>Button_Text = ''buy'', Button_Image = [], Button_Submit = Some 1\<rparr>]\<rparr>
   \<and> fst (ButtonMenu_MarshalJSON
          \<lparr>ButtonMenu_Title = ''shop'', ButtonMenu_Content = ''pick one'',
           ButtonMenu_Buttons = None, ButtonMenu_Submit = None\<rparr>)
     = \<lparr>ButtonMenu_Title = ''shop'', ButtonMenu_Content = ''pick one'',
           ButtonMenu_Buttons = Some [], ButtonMenu_Submit = None\<rparr>"
  using MarshalJSON_frame[where marshalOther = "\<lambda>x::string. Inr (DString x)"
      and mn = "\<lparr>Menu_Title = ''shop'', Menu_Content = ''pick one'',
           Menu_Elements = [OtherElement ''header'',
             ButtonElement \<lparr>Button_Text = ''buy'', Button_Image = [], Button_Submit = Some 1\<rparr>],
           Menu_Submit = Some 2, Menu_buttons = []\<rparr>"
      and bm = "\<lparr>ButtonMenu_Title = ''shop'', ButtonMenu_Content = ''pick one'',
           ButtonMenu_Buttons = None, ButtonMenu_Submit = None\<rparr>"]
  by (simp add: slice_def)

text \<open>
  Claim C8 as stated, for every form, fails on the menu: serializing a menu that holds a
  button and has not been serialized before fills in \<^verbatim>\<open>buttons\<close>.
\<close>

theorem Menu_MarshalJSON_counterexample:
  "fst (Menu_MarshalJSON (\<lambda>x::string. Inr (DString x))
          \<lparr>Menu_Title = ''shop'', Menu_Content = ''pick one'',
           Menu_Elements =
             [ButtonElement \<lparr>Button_Text = ''buy'', Button_Image = [], Button_Submit = Some 1\<rparr>],
           Menu_Submit = None, Menu_buttons = []\<rparr>)
   \<noteq> \<lparr>Menu_Title = ''shop'', Menu_Content = ''pick one'',
           Menu_Elements =
             [ButtonElement \<lparr>Button_Text = ''buy'', Button_Image = [], Button_Submit = Some 1\<rparr>],
           Menu_Submit = None, Menu_buttons = []\<rparr>"
  by (simp add: Menu_MarshalJSON_def Let_def)

subsection \<open>Closing a form\<close>

text \<open>
  Claim C9. For every form type, \<^verbatim>\<open>SubmitJSON\<close> with nil data returns nil; the only
  callback it calls is the form's \<^verbatim>\<open>Submit\<close>, with \<^verbatim>\<open>closed\<close> true, when that is not nil: no
  callback of a button or of an element is called.
\<close>

theorem SubmitJSON_nil_data:
  "Custom_SubmitJSON Decode c None = (invoke FormSubmit (Custom_Submit c) [ABool True], Returned None)
   \<and> Menu_SubmitJSON mn None tx
       = (invoke FormSubmit (Menu_Submit mn) [ABool True, ATx tx], Returned None)
   \<and> ButtonMenu_SubmitJSON bm None
       = (invoke FormSubmit (ButtonMenu_Submit bm) [ABool True], Returned None)
   \<and> Modal_SubmitJSON m None = (invoke FormSubmit (Modal_Submit m) [ABool True], Returned None)"
  by (simp add: Custom_SubmitJSON_def Menu_SubmitJSON_def ButtonMenu_SubmitJSON_def
      Modal_SubmitJSON_def)

theorem SubmitJSON_nil_data_witness:
  "Custom_SubmitJSON (\<lambda>bytes. Inl ErrUnmarshal)
       \<lparr>Custom_Title = ''settings'',
        Custom_Elements = [ToggleElement \<lparr>Toggle_Text = ''on'', Toggle_Default = False,
                                          Toggle_Submit = Some 1\<rparr>],
        Custom_Submit = Some 2\<rparr> None
     = ([Call FormSubmit 2 [ABool True]], Returned None)
   \<and> Menu_SubmitJSON
       \<lparr>Menu_Title = ''shop'', Menu_Content = ''pick one'',
        Menu_Elements = [OtherElement ''header''], Menu_Submit = Some 3, Menu_buttons = []\<rparr>
       None 9
     = ([Call FormSubmit 3 [ABool True, ATx 9]], Returned None)
   \<and> ButtonMenu_SubmitJSON
       \<lparr>ButtonMenu_Title = ''shop'', ButtonMenu_Content = ''pick one'',
        ButtonMenu_Buttons =
          Some [\<lparr>Button_Text = ''buy'', Button_Image = [], Button_Submit = Some 1\<rparr>],
        ButtonMenu_Submit = Some 4\<rparr> None
     = ([Call FormSubmit 4 [ABool True]], Returned None)
   \<and> Modal_SubmitJSON
       \<lparr>Modal_Title = ''sure?'', Modal_Content = ''really'',
        Modal_Button1 = \<lparr>Button_Text = ''yes'', Button_Image = [], Button_Submit = Some 1\<rparr>,
        Modal_Button2 = \<lparr>Button_Text = ''no'', Button_Image = [], Button_Submit = Some 2\<rparr>,
        Modal_Submit = None\<rparr> None
     = ([], Returned None)"
  using SubmitJSON_nil_data[where Decode = "\<lambda>bytes. Inl ErrUnmarshal"
      and c = "\<lparr>Custom_Title = ''settings'',
        Custom_Elements = [ToggleElement \<lparr>Toggle_Text = ''on'', Toggle_Default = False,
                                          Toggle_Submit = Some 1\<rparr>],
        Custom_Submit = Some 2\<rparr>"
      and mn = "\<lparr>Menu_Title = ''shop'', Menu_Content = ''pick one'',
        Menu_Elements = [OtherElement ''header''], Menu_Submit = Some 3, Menu_buttons = []\<rparr>"
      and tx = 9
      and bm = "\<lparr>ButtonMenu_Title = ''shop'', ButtonMenu_Content = ''pick one'',
        ButtonMenu_Buttons =
          Some [\<lparr>Button_Text = ''buy'', Button_Image = [], Button_Submit = Some 1\<rparr>],
        ButtonMenu_Submit = Some 4\<rparr>"
      and m = "\<lparr>Modal_Title = ''sure?'', Modal_Content = ''really'',
        Modal_Button1 = \<lparr>Button_Text = ''yes'', Button_Image = [], Button_Submit = Some 1\<rparr>,
        Modal_Button2 = \<lparr>Button_Text = ''no'', Button_Image = [], Button_Submit = Some 2\<rparr>,
        Modal_Submit = None\<rparr>"]
  by (simp add: invoke_def)

subsection \<open>The response to a custom form\<close>

text \<open>
  Claim C10. \<^verbatim>\<open>Custom.SubmitJSON\<close> returns an error whenever the decoded array has fewer
  values than the form has elements, and also when it has more; it calls no callback,
  neither of an element nor of the form.
\<close>

theorem Custom_SubmitJSON_length:
  assumes "Decode bytes = Inr inputData"
    and "length inputData < length (Custom_Elements form)
         \<or> length (Custom_Elements form) < length inputData"
  shows "Custom_SubmitJSON Decode form (Some bytes) = ([], Returned (Some ErrNotEnoughValues))"
  using assms by (auto simp: Custom_SubmitJSON_def)

theorem Custom_SubmitJSON_length_witness:
  "Custom_SubmitJSON (\<lambda>bytes. Inr [JBool True])
       \<lparr>Custom_Title = ''settings'',
        Custom_Elements = [ToggleElement \<lparr>Toggle_Text = ''on'', Toggle_Default = False,
                                          Toggle_Submit = Some 1\<rparr>,
                           LabelElement \<lparr>Label_Text = ''note''\<rparr>],
        Custom_Submit = Some 2\<rparr> (Some ''[true]'')
     = ([], Returned (Some ErrNotEnoughValues))
   \<and> Custom_SubmitJSON (\<lambda>bytes. Inr [JBool True])
       \<lparr>Custom_Title = ''settings'', Custom_Elements = [], Custom_Submit = Some 2\<rparr>
       (Some ''[true]'')
     = ([], Returned (Some ErrNotEnoughValues))"
proof -
  let ?Decode = "\<lambda>bytes::string. (Inr [JBool True] :: error + json list)"
  let ?two = "\<lparr>Custom_Title = ''settings'',
        Custom_Elements = [ToggleElement \<lparr>Toggle_Text = ''on'', Toggle_Default = False,
                                          Toggle_Submit = Some 1\<rparr>,
                           LabelElement \<lparr>Label_Text = ''note''\<rparr>],
        Custom_Submit = Some 2\<rparr>"
  let ?none = "\<lparr>Custom_Title = ''settings'', Custom_Elements = [], Custom_Submit = Some 2\<rparr>"
  have d: "?Decode ''[true]'' = Inr [JBool True]" by simp
  have fewer: "length [JBool True] < length (Custom_Elements ?two)
               \<or> length (Custom_Elements ?two) < length [JBool True]" by simp
  have more: "length [JBool True] < length (Custom_Elements ?none)
               \<or> length (Custom_Elements ?none) < length [JBool True]" by simp
  from Custom_SubmitJSON_length[of ?Decode, OF d fewer]
       Custom_SubmitJSON_length[of ?Decode, OF d more]
  show ?thesis by simp
qed

subsection \<open>The response to a menu\<close>

lemma index_in_range: "idx < length xs \<Longrightarrow> index xs (int idx) = Some (xs ! idx)"
  by (simp add: index_def)

lemma invoke_set: "ev \<in> set (invoke fld f args) \<longleftrightarrow> (\<exists>c. f = Some c \<and> ev = Call fld c args)"
  by (cases f) (auto simp: invoke_def)

lemma Menu_SubmitJSON_cases:
  "Menu_SubmitJSON form (Some bytes) tx =
     (if snd (Unmarshal_uint bytes 0) \<noteq> None
      then ([], Returned (Some (ErrParseButtonIndex (the (snd (Unmarshal_uint bytes 0))))))
      else if length (Menu_buttons form) \<le> fst (Unmarshal_uint bytes 0)
      then ([], Returned (Some (ErrInvalidButton (fst (Unmarshal_uint bytes 0))
                                  (length (Menu_buttons form)))))
      else (invoke ButtonSubmit
              (Button_Submit (Menu_buttons form ! fst (Unmarshal_uint bytes 0))) [ATx tx]
            @ invoke FormSubmit (Menu_Submit form) [ABool False, ATx tx], Returned None))"
  by (cases "Unmarshal_uint bytes 0")
     (auto simp: Menu_SubmitJSON_def index_in_range split: option.splits)

lemma ButtonMenu_SubmitJSON_cases:
  "ButtonMenu_SubmitJSON form (Some bytes) =
     (if snd (Unmarshal_uint bytes 0) \<noteq> None
      then ([], Returned (Some (ErrParseButtonIndex (the (snd (Unmarshal_uint bytes 0))))))
      else if length (slice (ButtonMenu_Buttons form)) \<le> fst (Unmarshal_uint bytes 0)
      then ([], Returned (Some (ErrInvalidButton (fst (Unmarshal_uint bytes 0))
                                  (length (slice (ButtonMenu_Buttons form))))))
      else (invoke ButtonSubmit
              (Button_Submit (slice (ButtonMenu_Buttons form) ! fst (Unmarshal_uint bytes 0))) []
            @ invoke FormSubmit (ButtonMenu_Submit form) [ABool False], Returned None))"
  by (cases "Unmarshal_uint bytes 0")
     (auto simp: ButtonMenu_SubmitJSON_def index_in_range split: option.splits)

text \<open>
  Claim C6. On a response that is not nil, \<^verbatim>\<open>Menu.SubmitJSON\<close> never indexes its slice of
  buttons out of range (it does not panic): a button's \<^verbatim>\<open>Submit\<close> is called only when the
  response decodes to an index below the number of buttons, and it is the \<^verbatim>\<open>Submit\<close> of
  the button at that index; for every decoded index greater than or equal to the number
  of buttons \<^verbatim>\<open>SubmitJSON\<close> returns an error and calls nothing. This holds for both
  revisions of the menu.
\<close>

theorem Menu_SubmitJSON_in_bounds:
  "snd (Menu_SubmitJSON mn (Some bytes) tx) \<noteq> Panicked
   \<and> (\<forall>c a. Call ButtonSubmit c a \<in> set (events (Menu_SubmitJSON mn (Some bytes) tx)) \<longrightarrow>
          snd (Unmarshal_uint bytes 0) = None
          \<and> fst (Unmarshal_uint bytes 0) < length (Menu_buttons mn)
          \<and> Button_Submit (Menu_buttons mn ! fst (Unmarshal_uint bytes 0)) = Some c)
   \<and> (snd (Unmarshal_uint bytes 0) = None
        \<and> length (Menu_buttons mn) \<le> fst (Unmarshal_uint bytes 0) \<longrightarrow>
          is_error (Menu_SubmitJSON mn (Some bytes) tx)
          \<and> events (Menu_SubmitJSON mn (Some bytes) tx) = [])
   \<and> snd (ButtonMenu_SubmitJSON bm (Some bytes)) \<noteq> Panicked
   \<and> (\<forall>c a. Call ButtonSubmit c a \<in> set (events (ButtonMenu_SubmitJSON bm (Some bytes))) \<longrightarrow>
          snd (Unmarshal_uint bytes 0) = None
          \<and> fst (Unmarshal_uint bytes 0) < length (slice (ButtonMenu_Buttons bm))
          \<and> Button_Submit (slice (ButtonMenu_Buttons bm) ! fst (Unmarshal_uint bytes 0)) = Some c)
   \<and> (snd (Unmarshal_uint bytes 0) = None
        \<and> length (slice (ButtonMenu_Buttons bm)) \<le> fst (Unmarshal_uint bytes 0) \<longrightarrow>
          is_error (ButtonMenu_SubmitJSON bm (Some bytes))
          \<and> events (ButtonMenu_SubmitJSON bm (Some bytes)) = [])"
  unfolding Menu_SubmitJSON_cases ButtonMenu_SubmitJSON_cases
  by (auto simp: events_def invoke_set)

theorem Menu_SubmitJSON_in_bounds_witness:
  "is_error (Menu_SubmitJSON
       \<lparr>Menu_Title = ''shop'', Menu_Content = ''pick one'',
        Menu_Elements = [ButtonElement \<lparr>Button_Text = ''buy'', Button_Image = [], Button_Submit = Some 1\<rparr>,
                         OtherElement ''header'',
                         ButtonElement \<lparr>Button_Text = ''sell'', Button_Image = [], Button_Submit = Some 2\<rparr>],
        Menu_Submit = Some 3,
        Menu_buttons = [\<lparr>Button_Text = ''buy'', Button_Image = [], Button_Submit = Some 1\<rparr>,
                        \<lparr>Button_Text = ''sell'', Button_Image = [], Button_Submit = Some 2\<rparr>]\<rparr>
       (Some ''2'') 9)
   \<and> is_error (ButtonMenu_SubmitJSON
       \<lparr>ButtonMenu_Title = ''shop'', ButtonMenu_Content = ''pick one'',
        ButtonMenu_Buttons =
          Some [\<lparr>Button_Text = ''buy'', Button_Image = [], Button_Submit = Some 1\<rparr>,
                \<lparr>Button_Text = ''sell'', Button_Image = [], Button_Submit = Some 2\<rparr>],
        ButtonMenu_Submit = Some 4\<rparr> (Some ''2''))
   \<and> Menu_SubmitJSON
       \<lparr>Menu_Title = ''shop'', Menu_Content = ''pick one'',
        Menu_Elements = [ButtonElement \<lparr>Button_Text = ''buy'', Button_Image = [], Button_Submit = Some 1\<rparr>,
                         OtherElement ''header'',
                         ButtonElement \<lparr>Button_Text = ''sell'', Button_Image = [], Button_Submit = Some 2\<rparr>],
        Menu_Submit = Some 3,
        Menu_buttons = [\<lparr>Button_Text = ''buy'', Button_Image = [], Button_Submit = Some 1\<rparr>,
                        \<lparr>Button_Text = ''sell'', Button_Image = [], Button_Submit = Some 2\<rparr>]\<rparr>
       (Some ''1'') 9
     = ([Call ButtonSubmit 2 [ATx 9], Call FormSubmit 3 [ABool False, ATx 9]], Returned None)"
proof -
  let ?mn = "\<lparr>Menu_Title = ''shop'', Menu_Content = ''pick one'',
        Menu_Elements = [ButtonElement \<lparr>Button_Text = ''buy'', Button_Image = [], Button_Submit = Some 1\<rparr>,
                         OtherElement ''header'',
                         ButtonElement \<lparr>Button_Text = ''sell'', Button_Image = [], Button_Submit = Some 2\<rparr>],
        Menu_Submit = Some 3,
        Menu_buttons = [\<lparr>Button_Text = ''buy'', Button_Image = [], Button_Submit = Some 1\<rparr>,
                        \<lparr>Button_Text = ''sell'', Button_Image = [], Button_Submit = Some 2\<rparr>]\<rparr>"
  let ?bm = "\<lparr>ButtonMenu_Title = ''shop'', ButtonMenu_Content = ''pick one'',
        ButtonMenu_Buttons =
          Some [\<lparr>Button_Text = ''buy'', Button_Image = [], Button_Submit = Some 1\<rparr>,
                \<lparr>Button_Text = ''sell'', Button_Image = [], Button_Submit = Some 2\<rparr>],
        ButtonMenu_Submit = Some 4\<rparr>"
  have u2: "Unmarshal_uint ''2'' 0 = (2, None)"
    by (simp add: Unmarshal_uint_def trim_def is_space_def json_int_part_def all_digits_def
        is_digit_def digits_value_def digit_val_def)
  have u1: "Unmarshal_uint ''1'' 0 = (1, None)"
    by (simp add: Unmarshal_uint_def trim_def is_space_def json_int_part_def all_digits_def
        is_digit_def digits_value_def digit_val_def)
  have h: "snd (Unmarshal_uint ''2'' 0) = None
           \<and> length (Menu_buttons ?mn) \<le> fst (Unmarshal_uint ''2'' 0)"
    and h': "snd (Unmarshal_uint ''2'' 0) = None
           \<and> length (slice (ButtonMenu_Buttons ?bm)) \<le> fst (Unmarshal_uint ''2'' 0)"
    by (simp_all add: u2 slice_def)
  from Menu_SubmitJSON_in_bounds[of ?mn "''2''" 9 ?bm] h h'
  have "is_error (Menu_SubmitJSON ?mn (Some ''2'') 9)"
    and "is_error (ButtonMenu_SubmitJSON ?bm (Some ''2''))"
    by blast+
  moreover have "Menu_SubmitJSON ?mn (Some ''1'') 9
     = ([Call ButtonSubmit 2 [ATx 9], Call FormSubmit 3 [ABool False, ATx 9]], Returned None)"
    by (simp add: Menu_SubmitJSON_def u1 index_def invoke_def)
  ultimately show ?thesis by simp
qed

subsection \<open>The response to a modal\<close>

lemma Modal_SubmitJSON_cases:
  "Modal_SubmitJSON form (Some bytes) =
     (if trim bytes = ''true''
      then (invoke ButtonSubmit (Button_Submit (Modal_Button1 form)) []
            @ invoke FormSubmit (Modal_Submit form) [ABool False], Returned None)
      else if trim bytes = ''false'' \<or> trim bytes = ''null''
      then (invoke ButtonSubmit (Button_Submit (Modal_Button2 form)) []
            @ invoke FormSubmit (Modal_Submit form) [ABool False], Returned None)
      else ([], Returned (Some (ErrParsingBool ErrUnmarshal))))"
  by (simp add: Modal_SubmitJSON_def Unmarshal_bool_def Let_def)

text \<open>
  Claim C7, as amended. On a response that is not nil, \<^verbatim>\<open>Modal.SubmitJSON\<close> returns an
  error if and only if the data is neither a JSON boolean nor the JSON literal
  \<^verbatim>\<open>null\<close>. On \<^verbatim>\<open>true\<close> it calls the \<^verbatim>\<open>Submit\<close> of \<^verbatim>\<open>Button1\<close>, on \<^verbatim>\<open>false\<close> and on \<^verbatim>\<open>null\<close> the
  \<^verbatim>\<open>Submit\<close> of \<^verbatim>\<open>Button2\<close> (each when not nil), and then the form's \<^verbatim>\<open>Submit\<close> with
  \<^verbatim>\<open>closed\<close> false (when not nil), and returns nil.
\<close>

theorem Modal_SubmitJSON_dispatch:
  "(is_error (Modal_SubmitJSON form (Some bytes)) \<longleftrightarrow>
      \<not> (json_boolean bytes \<or> trim bytes = ''null''))
   \<and> (trim bytes = ''true'' \<longrightarrow>
        Modal_SubmitJSON form (Some bytes) =
          (invoke ButtonSubmit (Button_Submit (Modal_Button1 form)) []
           @ invoke FormSubmit (Modal_Submit form) [ABool False], Returned None))
   \<and> (trim bytes = ''false'' \<or> trim bytes = ''null'' \<longrightarrow>
        Modal_SubmitJSON form (Some bytes) =
          (invoke ButtonSubmit (Button_Submit (Modal_Button2 form)) []
           @ invoke FormSubmit (Modal_Submit form) [ABool False], Returned None))"
  by (auto simp: Modal_SubmitJSON_cases json_boolean_def)

theorem Modal_SubmitJSON_dispatch_witness:
  "Modal_SubmitJSON
       \<lparr>Modal_Title = ''sure?'', Modal_Content = ''really'',
        Modal_Button1 = \<lparr>Button_Text = ''yes'', Button_Image = [], Button_Submit = Some 1\<rparr>,
        Modal_Button2 = \<lparr>Button_Text = ''no'', Button_Image = [], Button_Submit = Some 2\<rparr>,
        Modal_Submit = Some 3\<rparr> (Some '' true'')
     = ([Call ButtonSubmit 1 [], Call FormSubmit 3 [ABool False]], Returned None)
   \<and> is_error (Modal_SubmitJSON
       \<lparr>Modal_Title = ''sure?'', Modal_Content = ''really'',
        Modal_Button1 = \<lparr>Button_Text = ''yes'', Button_Image = [], Button_Submit = Some 1\<rparr>,
        Modal_Button2 = \<lparr>Button_Text = ''no'', Button_Image = [], Button_Submit = Some 2\<rparr>,
        Modal_Submit = Some 3\<rparr> (Some ''1''))"
proof -
  let ?m = "\<lparr>Modal_Title = ''sure?'', Modal_Content = ''really'',
        Modal_Button1 = \<lparr>Button_Text = ''yes'', Button_Image = [], Button_Submit = Some 1\<rparr>,
        Modal_Button2 = \<lparr>Button_Text = ''no'', Button_Image = [], Button_Submit = Some 2\<rparr>,
        Modal_Submit = Some 3\<rparr>"
  have t1: "trim '' true'' = ''true''" by code_simp
  have t2: "trim ''1'' = ''1''" by code_simp
  from Modal_SubmitJSON_dispatch[of ?m "'' true''"] t1
  have "Modal_SubmitJSON ?m (Some '' true'')
          = ([Call ButtonSubmit 1 [], Call FormSubmit 3 [ABool False]], Returned None)"
    by (simp add: invoke_def)
  moreover from Modal_SubmitJSON_dispatch[of ?m "''1''"] t2
  have "is_error (Modal_SubmitJSON ?m (Some ''1''))"
    by (simp add: json_boolean_def)
  ultimately show ?thesis by simp
qed

text \<open>
  Claim C7 as stated fails on \<^verbatim>\<open>null\<close>, which is no JSON boolean: the decoder leaves the
  variable at false and reports no error, so the modal acts as if the second button had
  been pressed.
\<close>

theorem Modal_null_counterexample:
  "\<not> json_boolean ''null''
   \<and> Modal_SubmitJSON
       \<lparr>Modal_Title = ''sure?'', Modal_Content = ''really'',
        Modal_Button1 = \<lparr>Button_Text = ''yes'', Button_Image = [], Button_Submit = Some 1\<rparr>,
        Modal_Button2 = \<lparr>Button_Text = ''no'', Button_Image = [], Button_Submit = Some 2\<rparr>,
        Modal_Submit = Some 3\<rparr> (Some ''null'')
     = ([Call ButtonSubmit 2 [], Call FormSubmit 3 [ABool False]], Returned None)"
proof -
  have t: "trim ''null'' = ''null''" by code_simp
  then show ?thesis
    by (simp add: json_boolean_def Modal_SubmitJSON_cases invoke_def)
qed

subsection \<open>The elements of a custom form, one after the other\<close>

lemma Dropdown_submit_shape:
  "Dropdown_submit d v = ([], Returned None)
   \<or> (\<exists>err. Dropdown_submit d v = ([], Returned (Some err)))
   \<or> (\<exists>c a. Dropdown_submit d v = ([Call ElementSubmit c a], Returned None))"
  by (cases "Int64 (fst (as_Number v))")
     (auto simp: Dropdown_submit_def index_def split: option.splits prod.splits)

lemma StepSlider_submit_shape:
  "StepSlider_submit d v = ([], Returned None)
   \<or> (\<exists>err. StepSlider_submit d v = ([], Returned (Some err)))
   \<or> (\<exists>c a. StepSlider_submit d v = ([Call ElementSubmit c a], Returned None))"
  by (cases "Int64 (fst (as_Number v))")
     (auto simp: StepSlider_submit_def index_def split: option.splits prod.splits)

lemma Slider_submit_shape:
  "Slider_submit s v = ([], Returned None)
   \<or> (\<exists>err. Slider_submit s v = ([], Returned (Some err)))
   \<or> (\<exists>c a. Slider_submit s v = ([Call ElementSubmit c a], Returned None))"
  by (cases "Float64 (fst (as_Number v))")
     (auto simp: Slider_submit_def split: option.splits prod.splits)

lemma Input_submit_shape:
  "Input_submit i v = ([], Returned None)
   \<or> (\<exists>err. Input_submit i v = ([], Returned (Some err)))
   \<or> (\<exists>c a. Input_submit i v = ([Call ElementSubmit c a], Returned None))"
  by (cases v) (auto simp: Input_submit_def split: option.splits)

lemma Toggle_submit_shape:
  "Toggle_submit t v = ([], Returned None)
   \<or> (\<exists>err. Toggle_submit t v = ([], Returned (Some err)))
   \<or> (\<exists>c a. Toggle_submit t v = ([Call ElementSubmit c a], Returned None))"
  by (cases v) (auto simp: Toggle_submit_def split: option.splits)

text \<open>
  The \<^verbatim>\<open>submit\<close> of an element never panics; it returns an error without having called
  anything, or it returns nil after at most one call of the element's callback.
\<close>

lemma submit_shape:
  "submit e v = ([], Returned None)
   \<or> (\<exists>err. submit e v = ([], Returned (Some err)))
   \<or> (\<exists>c a. submit e v = ([Call ElementSubmit c a], Returned None))"
  using Input_submit_shape Toggle_submit_shape Slider_submit_shape Dropdown_submit_shape
    StepSlider_submit_shape
  by (cases e) (simp_all add: Label_submit_def)

lemma submit_nil_or_error:
  "returns_nil (submit e v) \<or> (\<exists>err. submit e v = ([], Returned (Some err)))"
  using submit_shape[of e v] by (auto simp: returns_nil_def)

lemma submit_events_field:
  "ev \<in> set (events (submit e v)) \<Longrightarrow> \<exists>c a. ev = Call ElementSubmit c a"
  using submit_shape[of e v] by (auto simp: events_def)

lemma submit_elements_ok:
  assumes "i + length es \<le> length vs"
    and "\<forall>j < length es. returns_nil (submit (es ! j) (vs ! (i + j)))"
  shows "submit_elements i es vs =
           (concat (map (\<lambda>(element, v). events (submit element v)) (zip es (drop i vs))),
            Returned None)"
  using assms
proof (induction es arbitrary: i)
  case Nil
  then show ?case by simp
next
  case (Cons e es)
  from Cons.prems(1) have i: "i < length vs" by simp
  then have d: "drop i vs = vs ! i # drop (Suc i) vs"
    by (simp add: Cons_nth_drop_Suc)
  from Cons.prems(2) have e: "returns_nil (submit e (vs ! i))" by force
  have "\<forall>j < length es. returns_nil (submit (es ! j) (vs ! (Suc i + j)))"
  proof (intro allI impI)
    fix j assume "j < length es"
    with Cons.prems(2) have "returns_nil (submit ((e # es) ! Suc j) (vs ! (i + Suc j)))"
      by (metis Suc_less_eq length_Cons)
    then show "returns_nil (submit (es ! j) (vs ! (Suc i + j)))" by simp
  qed
  with Cons.IH[of "Suc i"] Cons.prems(1)
  have IH: "submit_elements (Suc i) es vs =
           (concat (map (\<lambda>(element, v). events (submit element v)) (zip es (drop (Suc i) vs))),
            Returned None)"
    by simp
  from e obtain evs where s: "submit e (vs ! i) = (evs, Returned None)"
    by (cases "submit e (vs ! i)") (auto simp: returns_nil_def)
  show ?case
    using i by (simp add: d index_def s IH events_def)
qed

lemma submit_elements_error:
  assumes "i + length es \<le> length vs" and "k < length es"
    and "snd (submit (es ! k) (vs ! (i + k))) = Returned (Some err)"
    and "\<forall>j < k. returns_nil (submit (es ! j) (vs ! (i + j)))"
  shows "submit_elements i es vs =
           (concat (map (\<lambda>(element, v). events (submit element v)) (take k (zip es (drop i vs)))),
            Returned (Some (ErrParsingResponseValue err)))"
  using assms
proof (induction es arbitrary: i k)
  case Nil
  then show ?case by simp
next
  case (Cons e es)
  from Cons.prems(1) have i: "i < length vs" by simp
  then have d: "drop i vs = vs ! i # drop (Suc i) vs"
    by (simp add: Cons_nth_drop_Suc)
  show ?case
  proof (cases k)
    case 0
    with Cons.prems(3) have "snd (submit e (vs ! i)) = Returned (Some err)" by simp
    with submit_shape[of e "vs ! i"] have "submit e (vs ! i) = ([], Returned (Some err))"
      by auto
    with 0 i show ?thesis by (simp add: index_def)
  next
    case (Suc k')
    with Cons.prems(4) have "returns_nil (submit ((e # es) ! 0) (vs ! (i + 0)))" by blast
    then obtain evs where s: "submit e (vs ! i) = (evs, Returned None)"
      by (cases "submit e (vs ! i)") (auto simp: returns_nil_def)
    have a: "i + 1 + length es \<le> length vs" using Cons.prems(1) by simp
    have b: "k' < length es" using Cons.prems(2) Suc by simp
    have c: "snd (submit (es ! k') (vs ! (Suc i + k'))) = Returned (Some err)"
      using Cons.prems(3) Suc by simp
    have "\<forall>j < k'. returns_nil (submit (es ! j) (vs ! (Suc i + j)))"
    proof (intro allI impI)
      fix j assume "j < k'"
      then have "Suc j < k" using Suc by simp
      with Cons.prems(4) have "returns_nil (submit ((e # es) ! Suc j) (vs ! (i + Suc j)))"
        by blast
      then show "returns_nil (submit (es ! j) (vs ! (Suc i + j)))" by simp
    qed
    with Cons.IH[of "Suc i" k'] a b c
    have IH: "submit_elements (Suc i) es vs =
           (concat (map (\<lambda>(element, v). events (submit element v))
                        (take k' (zip es (drop (Suc i) vs)))),
            Returned (Some (ErrParsingResponseValue err)))"
      by simp
    show ?thesis
      using i by (simp add: d index_def s IH events_def Suc)
  qed
qed


lemma events_before_field:
  "ev \<in> set (events_before k es vs) \<Longrightarrow> \<exists>c a. ev = Call ElementSubmit c a"
  using submit_events_field by (fastforce simp: events_before_def)

lemma validates_iff:
  assumes "Decode bytes = Inr vs"
  shows "validates Decode form bytes \<longleftrightarrow>
           length (Custom_Elements form) = length vs \<and>
           (\<forall>j < length vs. returns_nil (submit (Custom_Elements form ! j) (vs ! j)))"
  using assms by (auto simp: validates_def list_all_length)

lemma first_failure:
  assumes "\<not> (\<forall>j < (n::nat). P j)"
  shows "\<exists>k < n. \<not> P k \<and> (\<forall>j < k. P j)"
proof -
  from assms obtain m where m: "m < n \<and> \<not> P m" by blast
  define k where "k = (LEAST m. m < n \<and> \<not> P m)"
  from m have k: "k < n \<and> \<not> P k"
    unfolding k_def by (rule LeastI[of "\<lambda>m. m < n \<and> \<not> P m"])
  have "\<forall>j < k. P j"
  proof (intro allI impI)
    fix j assume j: "j < k"
    show "P j"
    proof (rule ccontr)
      assume "\<not> P j"
      with j k have "j < n \<and> \<not> P j" by simp
      then have "k \<le> j"
        unfolding k_def by (rule Least_le[of "\<lambda>m. m < n \<and> \<not> P m"])
      with j show False by simp
    qed
  qed
  with k show ?thesis by blast
qed

lemma Custom_SubmitJSON_validated:
  assumes "Decode bytes = Inr vs" and "validates Decode form bytes"
  shows "Custom_SubmitJSON Decode form (Some bytes) =
           (events_before (length vs) (Custom_Elements form) vs
            @ invoke FormSubmit (Custom_Submit form) [ABool False], Returned None)"
proof -
  from assms validates_iff[of Decode bytes vs form]
  have len: "length (Custom_Elements form) = length vs"
    and ok: "\<forall>j < length (Custom_Elements form).
               returns_nil (submit (Custom_Elements form ! j) (vs ! (0 + j)))"
    by auto
  from len have "0 + length (Custom_Elements form) \<le> length vs" by simp
  from submit_elements_ok[OF this ok] len assms(1) show ?thesis
    by (simp add: Custom_SubmitJSON_def events_before_def)
qed

lemma Custom_SubmitJSON_failing:
  assumes "Decode bytes = Inr vs" and "length (Custom_Elements form) = length vs"
    and "k < length vs"
    and "snd (submit (Custom_Elements form ! k) (vs ! k)) = Returned (Some err)"
    and "\<forall>j < k. returns_nil (submit (Custom_Elements form ! j) (vs ! j))"
  shows "Custom_SubmitJSON Decode form (Some bytes) =
           (events_before k (Custom_Elements form) vs,
            Returned (Some (ErrParsingResponseValue err)))"
proof -
  have a: "0 + length (Custom_Elements form) \<le> length vs" using assms(2) by simp
  have b: "k < length (Custom_Elements form)" using assms(2,3) by simp
  have c: "snd (submit (Custom_Elements form ! k) (vs ! (0 + k))) = Returned (Some err)"
    using assms(4) by simp
  have d: "\<forall>j < k. returns_nil (submit (Custom_Elements form ! j) (vs ! (0 + j)))"
    using assms(5) by simp
  from submit_elements_error[OF a b c d] assms(1,2) show ?thesis
    by (simp add: Custom_SubmitJSON_def events_before_def)
qed

lemma Custom_SubmitJSON_not_validated:
  assumes "\<not> validates Decode form bytes"
  shows "\<forall>c a. Call FormSubmit c a \<notin> set (events (Custom_SubmitJSON Decode form (Some bytes)))"
proof (cases "Decode bytes")
  case (Inl e)
  then show ?thesis by (simp add: Custom_SubmitJSON_def events_def)
next
  case (Inr vs)
  show ?thesis
  proof (cases "length (Custom_Elements form) = length vs")
    case False
    with Inr show ?thesis by (simp add: Custom_SubmitJSON_def events_def)
  next
    case True
    with assms Inr validates_iff[of Decode bytes vs form]
    have "\<not> (\<forall>j < length vs. returns_nil (submit (Custom_Elements form ! j) (vs ! j)))"
      by simp
    from first_failure[OF this] obtain k where k: "k < length vs"
      and bad: "\<not> returns_nil (submit (Custom_Elements form ! k) (vs ! k))"
      and good: "\<forall>j < k. returns_nil (submit (Custom_Elements form ! j) (vs ! j))"
      by blast
    from bad submit_nil_or_error obtain err where
      err: "snd (submit (Custom_Elements form ! k) (vs ! k)) = Returned (Some err)"
      by fastforce
    from Custom_SubmitJSON_failing[of Decode bytes vs form k err] Inr True k err good
    have "events (Custom_SubmitJSON Decode form (Some bytes))
            = events_before k (Custom_Elements form) vs"
      by (simp add: events_def)
    with events_before_field show ?thesis by fastforce
  qed
qed

text \<open>
  Claim C5. When the \<^verbatim>\<open>submit\<close> of an element returns an error during
  \<^verbatim>\<open>Custom.SubmitJSON\<close> (the response decodes to as many values as there are elements,
  element \<open>k\<close> rejects its value and the elements before it accepted theirs), then
  \<^verbatim>\<open>SubmitJSON\<close> returns that error, wrapped, and the callbacks it has called are those of
  the elements before \<open>k\<close> and no other: neither the form's \<^verbatim>\<open>Submit\<close> nor anything of an
  element after \<open>k\<close>. The form's \<^verbatim>\<open>Submit\<close> is called only with \<^verbatim>\<open>closed\<close> false and only
  when the response validates, that is when every element accepted its value; and when
  the response validates, \<^verbatim>\<open>SubmitJSON\<close> returns nil after calling the callbacks of all
  elements and then the form's \<^verbatim>\<open>Submit\<close> (if the form has one) with \<^verbatim>\<open>closed\<close> false. So a
  form's \<^verbatim>\<open>Submit\<close> is called with \<^verbatim>\<open>closed\<close> false exactly when the response validates.
\<close>

theorem Custom_SubmitJSON_elements:
  "(Decode bytes = Inr inputData \<and> length (Custom_Elements form) = length inputData
      \<and> k < length inputData
      \<and> snd (submit (Custom_Elements form ! k) (inputData ! k)) = Returned (Some err)
      \<and> (\<forall>j < k. returns_nil (submit (Custom_Elements form ! j) (inputData ! j)))
     \<longrightarrow> Custom_SubmitJSON Decode form (Some bytes)
           = (events_before k (Custom_Elements form) inputData,
              Returned (Some (ErrParsingResponseValue err)))
         \<and> (\<forall>c a. Call FormSubmit c a \<notin> set (events_before k (Custom_Elements form) inputData)))
   \<and> (\<forall>c a. Call FormSubmit c a \<in> set (events (Custom_SubmitJSON Decode form (Some bytes))) \<longrightarrow>
          validates Decode form bytes \<and> Custom_Submit form = Some c \<and> a = [ABool False])
   \<and> (Decode bytes = Inr inputData \<and> validates Decode form bytes \<longrightarrow>
         Custom_SubmitJSON Decode form (Some bytes)
           = (events_before (length inputData) (Custom_Elements form) inputData
              @ invoke FormSubmit (Custom_Submit form) [ABool False], Returned None))
   \<and> (Custom_Submit form = Some cb \<longrightarrow>
         (Call FormSubmit cb [ABool False]
            \<in> set (events (Custom_SubmitJSON Decode form (Some bytes)))
          \<longleftrightarrow> validates Decode form bytes))"
proof (intro conjI impI allI)
  assume a: "Decode bytes = Inr inputData \<and> length (Custom_Elements form) = length inputData
      \<and> k < length inputData
      \<and> snd (submit (Custom_Elements form ! k) (inputData ! k)) = Returned (Some err)
      \<and> (\<forall>j < k. returns_nil (submit (Custom_Elements form ! j) (inputData ! j)))"
  then show "Custom_SubmitJSON Decode form (Some bytes)
           = (events_before k (Custom_Elements form) inputData,
              Returned (Some (ErrParsingResponseValue err)))"
    using Custom_SubmitJSON_failing[of Decode bytes inputData form k err] by blast
  fix c a
  show "Call FormSubmit c a \<notin> set (events_before k (Custom_Elements form) inputData)"
    using events_before_field by blast
next
  fix c a
  assume ev: "Call FormSubmit c a \<in> set (events (Custom_SubmitJSON Decode form (Some bytes)))"
  with Custom_SubmitJSON_not_validated[of Decode form bytes]
  have v: "validates Decode form bytes" by blast
  then obtain vs where d: "Decode bytes = Inr vs"
    by (cases "Decode bytes") (auto simp: validates_def)
  from Custom_SubmitJSON_validated[of Decode bytes vs form] d v
  have "events (Custom_SubmitJSON Decode form (Some bytes))
          = events_before (length vs) (Custom_Elements form) vs
            @ invoke FormSubmit (Custom_Submit form) [ABool False]"
    by (simp add: events_def)
  with ev have "Call FormSubmit c a \<in> set (events_before (length vs) (Custom_Elements form) vs)
                \<or> Call FormSubmit c a \<in> set (invoke FormSubmit (Custom_Submit form) [ABool False])"
    by simp
  then have "Custom_Submit form = Some c \<and> a = [ABool False]"
    using events_before_field invoke_set by fastforce
  with v show "validates Decode form bytes" "Custom_Submit form = Some c" "a = [ABool False]"
    by simp_all
next
  assume "Decode bytes = Inr inputData \<and> validates Decode form bytes"
  then show "Custom_SubmitJSON Decode form (Some bytes)
           = (events_before (length inputData) (Custom_Elements form) inputData
              @ invoke FormSubmit (Custom_Submit form) [ABool False], Returned None)"
    using Custom_SubmitJSON_validated by blast
next
  assume cb: "Custom_Submit form = Some cb"
  show "Call FormSubmit cb [ABool False]
          \<in> set (events (Custom_SubmitJSON Decode form (Some bytes)))
        \<longleftrightarrow> validates Decode form bytes"
  proof
    assume "Call FormSubmit cb [ABool False]
              \<in> set (events (Custom_SubmitJSON Decode form (Some bytes)))"
    with Custom_SubmitJSON_not_validated[of Decode form bytes]
    show "validates Decode form bytes" by blast
  next
    assume v: "validates Decode form bytes"
    then obtain vs where d: "Decode bytes = Inr vs"
      by (cases "Decode bytes") (auto simp: validates_def)
    from Custom_SubmitJSON_validated[of Decode bytes vs form] d v cb
    show "Call FormSubmit cb [ABool False]
            \<in> set (events (Custom_SubmitJSON Decode form (Some bytes)))"
      by (simp add: events_def invoke_def)
  qed
qed

theorem Custom_SubmitJSON_elements_witness:
  "Custom_SubmitJSON (\<lambda>bytes. Inr [JBool True, JNumber ''5'', JBool False])
       \<lparr>Custom_Title = ''settings'',
        Custom_Elements =
          [ToggleElement \<lparr>Toggle_Text = ''on'', Toggle_Default = False, Toggle_Submit = Some 1\<rparr>,
           InputElement \<lparr>Input_Text = ''name'', Input_Default = [], Input_Placeholder = [],
                         Input_Submit = Some 2\<rparr>,
           ToggleElement \<lparr>Toggle_Text = ''off'', Toggle_Default = True, Toggle_Submit = Some 3\<rparr>],
        Custom_Submit = Some 9\<rparr> (Some ''[true,5,false]'')
     = ([Call ElementSubmit 1 [ABool True]],
        Returned (Some (ErrParsingResponseValue (ErrInputNotAllowed (JNumber ''5'')))))
   \<and> Custom_SubmitJSON (\<lambda>bytes. Inr [JBool True, JString ''hi'', JBool False])
       \<lparr>Custom_Title = ''settings'',
        Custom_Elements =
          [ToggleElement \<lparr>Toggle_Text = ''on'', Toggle_Default = False, Toggle_Submit = Some 1\<rparr>,
           InputElement \<lparr>Input_Text = ''name'', Input_Default = [], Input_Placeholder = [],
                         Input_Submit = Some 2\<rparr>,
           ToggleElement \<lparr>Toggle_Text = ''off'', Toggle_Default = True, Toggle_Submit = Some 3\<rparr>],
        Custom_Submit = Some 9\<rparr> (Some ''[true,\"hi\",false]'')
     = ([Call ElementSubmit 1 [ABool True], Call ElementSubmit 2 [AString ''hi''],
         Call ElementSubmit 3 [ABool False], Call FormSubmit 9 [ABool False]],
        Returned None)"
proof -
  let ?es = "[ToggleElement \<lparr>Toggle_Text = ''on'', Toggle_Default = False, Toggle_Submit = Some 1\<rparr>,
           InputElement \<lparr>Input_Text = ''name'', Input_Default = [], Input_Placeholder = [],
                         Input_Submit = Some 2\<rparr>,
           ToggleElement \<lparr>Toggle_Text = ''off'', Toggle_Default = True, Toggle_Submit = Some 3\<rparr>]"
  let ?form = "\<lparr>Custom_Title = ''settings'', Custom_Elements = ?es, Custom_Submit = Some 9\<rparr>"
  let ?bad = "[JBool True, JNumber ''5'', JBool False]"
  let ?good = "[JBool True, JString ''hi'', JBool False]"
  have u: "ValidString ''hi''" by code_simp
  have h1: "(\<lambda>bytes::string. (Inr ?bad :: error + json list)) ''[true,5,false]'' = Inr ?bad
      \<and> length (Custom_Elements ?form) = length ?bad
      \<and> 1 < length ?bad
      \<and> snd (submit (Custom_Elements ?form ! 1) (?bad ! 1))
          = Returned (Some (ErrInputNotAllowed (JNumber ''5'')))
      \<and> (\<forall>j < 1. returns_nil (submit (Custom_Elements ?form ! j) (?bad ! j)))"
    by (simp add: Input_submit_def Toggle_submit_def returns_nil_def)
  have h2: "(\<lambda>bytes::string. (Inr ?good :: error + json list)) ''[true,\"hi\",false]'' = Inr ?good
      \<and> validates (\<lambda>bytes. Inr ?good) ?form ''[true,\"hi\",false]''"
    by (simp add: validates_def Input_submit_def Toggle_submit_def returns_nil_def u
        del: ValidString.simps)
  have e1: "events_before 1 ?es ?bad = [Call ElementSubmit 1 [ABool True]]"
    by (simp add: events_before_def events_def Toggle_submit_def)
  have e2: "events_before (length ?good) ?es ?good
      = [Call ElementSubmit 1 [ABool True], Call ElementSubmit 2 [AString ''hi''],
         Call ElementSubmit 3 [ABool False]]"
    by (simp add: events_before_def events_def Toggle_submit_def Input_submit_def u
        del: ValidString.simps)
  from Custom_SubmitJSON_elements[where Decode = "\<lambda>bytes. Inr ?bad" and form = ?form
      and bytes = "''[true,5,false]''" and inputData = ?bad and k = 1
      and err = "ErrInputNotAllowed (JNumber ''5'')"] h1
  have "Custom_SubmitJSON (\<lambda>bytes. Inr ?bad) ?form (Some ''[true,5,false]'')
     = (events_before 1 ?es ?bad,
        Returned (Some (ErrParsingResponseValue (ErrInputNotAllowed (JNumber ''5'')))))"
    by simp
  moreover
  from Custom_SubmitJSON_elements[where Decode = "\<lambda>bytes. Inr ?good" and form = ?form
      and bytes = "''[true,\"hi\",false]''" and inputData = ?good] h2
  have "Custom_SubmitJSON (\<lambda>bytes. Inr ?good) ?form (Some ''[true,\"hi\",false]'')
     = (events_before (length ?good) ?es ?good @ invoke FormSubmit (Custom_Submit ?form) [ABool False],
        Returned None)"
    by simp
  ultimately show ?thesis
    by (simp only: e1 e2) (simp add: invoke_def)
qed

end
